theory Spec2Isabelle
  imports Main "HOL-Library.Sublist"
begin

section \<open>Python values used by the script\<close>

text \<open>
  A Python \<open>str\<close> is a sequence of Unicode code points; slicing and \<open>len\<close> count code
  points, so the model is a list of numbers and not a list of bytes. ASCII literals are
  written with \<open>str\<close>; the symbols of the messages are given by their code point.
\<close>

type_synonym pystr = "nat list"

definition str :: "string \<Rightarrow> pystr" where
  "str cs = map of_char cs"

text \<open>The operator \<open>needle in content\<close> on strings: a contiguous occurrence.\<close>

fun contains :: "pystr \<Rightarrow> pystr \<Rightarrow> bool" where
  "contains needle [] = (needle = [])"
| "contains needle (c # cs) = (prefix needle (c # cs) \<or> contains needle cs)"

text \<open>Decimal rendering of \<open>len(...)\<close> inside an f-string.\<close>

function str_of_nat :: "nat \<Rightarrow> pystr" where
  "str_of_nat n = (if n < 10 then [48 + n] else str_of_nat (n div 10) @ [48 + n mod 10])"
  by pat_completeness auto
termination
  by (relation "measure (\<lambda>n. n)") auto

declare str_of_nat.simps [simp del]

text \<open>\<open>print(x)\<close> writes \<open>x\<close> and a newline to standard output.\<close>

definition print_line :: "pystr \<Rightarrow> pystr" where
  "print_line x = x @ [10]"

text \<open>
  \<open>pathlib\<close> paths, as their text. \<open>p / q\<close> for the relative \<open>q\<close> of this script puts
  a separator between the two.
\<close>

type_synonym path = pystr

definition joinpath :: "path \<Rightarrow> pystr \<Rightarrow> path" where
  "joinpath p q = p @ str ''/'' @ q"

text \<open>The symbols that start the messages.\<close>

definition check_mark :: pystr where "check_mark = [0x2713]"
definition cross_mark :: pystr where "cross_mark = [0x2717]"
definition warn_mark :: pystr where "warn_mark = [0x26A0]"
definition magnifier :: pystr where "magnifier = [0x1F50D]"

section \<open>What the script observes of its surroundings\<close>

text \<open>
  \<open>open(...).read()\<close> may raise; the exception is not caught by the checks that read.
  \<open>subprocess.run\<close> either completes with a return code and the captured standard
  error, or raises one of the exceptions that \<open>check_cargo_build\<close> tells apart.
\<close>

datatype py_exception = OSError | UnicodeDecodeError

datatype run_outcome =
    Completed int pystr
  | FileNotFoundError
  | TimeoutExpired
  | OtherException pystr

record world =
  path_exists :: "path \<Rightarrow> bool"
  read_text :: "path \<Rightarrow> py_exception + pystr"
  subprocess_run :: "pystr list \<Rightarrow> path \<Rightarrow> nat \<Rightarrow> run_outcome"

section \<open>The validator\<close>

record EggValidator =
  egg_root :: path
  errors :: "pystr list"
  warnings :: "pystr list"
  successes :: "pystr list"

definition EggValidator_init :: "pystr \<Rightarrow> EggValidator" where
  "EggValidator_init root =
     \<lparr>egg_root = root, errors = [], warnings = [], successes = []\<rparr>"

definition add_error :: "pystr \<Rightarrow> EggValidator \<Rightarrow> EggValidator" where
  "add_error m v = v\<lparr>errors := errors v @ [m]\<rparr>"

definition add_warning :: "pystr \<Rightarrow> EggValidator \<Rightarrow> EggValidator" where
  "add_warning m v = v\<lparr>warnings := warnings v @ [m]\<rparr>"

definition add_success :: "pystr \<Rightarrow> EggValidator \<Rightarrow> EggValidator" where
  "add_success m v = v\<lparr>successes := successes v @ [m]\<rparr>"

text \<open>
  A check returns what it printed, its boolean and the validator as it left it. A check
  that reads a file returns \<open>Inl\<close> with the exception and the text printed before it
  when the read raises.
\<close>

type_synonym check_result = "pystr \<times> bool \<times> EggValidator"

subsection \<open>\<open>validate_structure\<close>\<close>

definition required_dirs :: "pystr list" where
  "required_dirs =
     [str ''crates/limit-core'',
      str ''crates/limit-storage'',
      str ''crates/limit-orchestration'',
      str ''crates/limit-agents'',
      str ''services/api'',
      str ''examples'',
      str ''tests'',
      str ''.github/workflows'']"

definition check_dir :: "world \<Rightarrow> EggValidator \<Rightarrow> pystr \<Rightarrow> EggValidator" where
  "check_dir w v dir_path =
     (if path_exists w (joinpath (egg_root v) dir_path)
      then add_success (check_mark @ str '' Directory exists: '' @ dir_path) v
      else add_error (cross_mark @ str '' Missing directory: '' @ dir_path) v)"

definition validate_structure :: "world \<Rightarrow> EggValidator \<Rightarrow> check_result" where
  "validate_structure w v =
     (let v' = foldl (check_dir w) v required_dirs
      in (print_line (magnifier @ str '' Validating egg folder structure...''),
          length (errors v') = 0, v'))"

subsection \<open>\<open>validate_crate_files\<close>\<close>

definition crates :: "pystr list" where
  "crates =
     [str ''limit-core'',
      str ''limit-storage'',
      str ''limit-orchestration'',
      str ''limit-agents'']"

definition check_crate :: "world \<Rightarrow> EggValidator \<Rightarrow> pystr \<Rightarrow> EggValidator" where
  "check_crate w v crate =
     (let crate_path = joinpath (joinpath (egg_root v) (str ''crates'')) crate;
          cargo_toml = joinpath crate_path (str ''Cargo.toml'');
          v1 = (if path_exists w cargo_toml
                then add_success (check_mark @ str '' '' @ crate @ str ''/Cargo.toml exists'') v
                else add_error (cross_mark @ str '' '' @ crate @ str ''/Cargo.toml missing'') v);
          lib_rs = joinpath (joinpath crate_path (str ''src'')) (str ''lib.rs'')
      in if path_exists w lib_rs
         then add_success (check_mark @ str '' '' @ crate @ str ''/src/lib.rs exists'') v1
         else add_error (cross_mark @ str '' '' @ crate @ str ''/src/lib.rs missing'') v1)"

definition validate_crate_files :: "world \<Rightarrow> EggValidator \<Rightarrow> check_result" where
  "validate_crate_files w v =
     (let v' = foldl (check_crate w) v crates
      in (print_line ([10] @ magnifier @ str '' Validating crate files...''),
          length (errors v') = 0, v'))"

subsection \<open>\<open>validate_examples\<close>\<close>

definition required_examples :: "pystr list" where
  "required_examples =
     [str ''basic_session.rs'',
      str ''agent_benchmark.rs'',
      str ''federated_orchestration.rs'']"

definition check_example :: "world \<Rightarrow> path \<Rightarrow> EggValidator \<Rightarrow> pystr \<Rightarrow> EggValidator" where
  "check_example w examples_dir v example =
     (if path_exists w (joinpath examples_dir example)
      then add_success (check_mark @ str '' Example exists: '' @ example) v
      else add_error (cross_mark @ str '' Missing example: '' @ example) v)"

definition validate_examples :: "world \<Rightarrow> EggValidator \<Rightarrow> check_result" where
  "validate_examples w v =
     (let examples_dir = joinpath (egg_root v) (str ''examples'');
          v' = foldl (check_example w examples_dir) v required_examples
      in (print_line ([10] @ magnifier @ str '' Validating examples...''),
          length (errors v') = 0, v'))"

subsection \<open>\<open>validate_workspace_config\<close>\<close>

definition required_members :: "pystr list" where
  "required_members =
     [str ''crates/limit-core'',
      str ''crates/limit-storage'',
      str ''crates/limit-orchestration'',
      str ''crates/limit-agents'',
      str ''services/api'']"

definition check_member :: "pystr \<Rightarrow> EggValidator \<Rightarrow> pystr \<Rightarrow> EggValidator" where
  "check_member content v member =
     (if contains member content
      then add_success (check_mark @ str '' Workspace member: '' @ member) v
      else add_error (cross_mark @ str '' Missing workspace member: '' @ member) v)"

definition validate_workspace_config ::
    "world \<Rightarrow> EggValidator \<Rightarrow> (py_exception \<times> pystr) + check_result" where
  "validate_workspace_config w v =
     (let out = print_line ([10] @ magnifier @ str '' Validating workspace configuration...'');
          cargo_toml = joinpath (egg_root v) (str ''Cargo.toml'')
      in if \<not> path_exists w cargo_toml
         then Inr (out, False, add_error (cross_mark @ str '' Root Cargo.toml missing'') v)
         else (case read_text w cargo_toml of
                 Inl ex \<Rightarrow> Inl (ex, out)
               | Inr content \<Rightarrow>
                   (let v' = foldl (check_member content) v required_members
                    in Inr (out, length (errors v') = 0, v'))))"

subsection \<open>\<open>validate_docker_config\<close>\<close>

definition validate_docker_config :: "world \<Rightarrow> EggValidator \<Rightarrow> check_result" where
  "validate_docker_config w v =
     (let dockerfile = joinpath (egg_root v) (str ''Dockerfile'');
          docker_compose = joinpath (egg_root v) (str ''docker-compose.yml'');
          dockerignore = joinpath (egg_root v) (str ''.dockerignore'');
          v1 = (if path_exists w dockerfile
                then add_success (check_mark @ str '' Dockerfile exists'') v
                else add_warning (warn_mark @ str '' Dockerfile missing'') v);
          v2 = (if path_exists w docker_compose
                then add_success (check_mark @ str '' docker-compose.yml exists'') v1
                else add_warning (warn_mark @ str '' docker-compose.yml missing'') v1);
          v3 = (if path_exists w dockerignore
                then add_success (check_mark @ str '' .dockerignore exists'') v2
                else add_warning (warn_mark @ str '' .dockerignore missing'') v2)
      in (print_line ([10] @ magnifier @ str '' Validating Docker configuration...''),
          True, v3))"

subsection \<open>\<open>validate_ci_workflow\<close>\<close>

definition required_jobs :: "pystr list" where
  "required_jobs = [str ''test'', str ''fmt'', str ''clippy'', str ''build'']"

definition check_job :: "pystr \<Rightarrow> EggValidator \<Rightarrow> pystr \<Rightarrow> EggValidator" where
  "check_job content v job =
     (if contains (job @ str '':'') content
      then add_success (check_mark @ str '' CI job defined: '' @ job) v
      else add_warning (warn_mark @ str '' CI job missing: '' @ job) v)"

definition validate_ci_workflow ::
    "world \<Rightarrow> EggValidator \<Rightarrow> (py_exception \<times> pystr) + check_result" where
  "validate_ci_workflow w v =
     (let out = print_line ([10] @ magnifier @ str '' Validating CI/CD workflow...'');
          ci_workflow =
            joinpath (joinpath (joinpath (egg_root v) (str ''.github'')) (str ''workflows''))
              (str ''ci.yml'')
      in if path_exists w ci_workflow
         then (let v1 = add_success (check_mark @ str '' CI workflow exists'') v
               in case read_text w ci_workflow of
                    Inl ex \<Rightarrow> Inl (ex, out)
                  | Inr content \<Rightarrow>
                      (let v' = foldl (check_job content) v1 required_jobs
                       in Inr (out, length (errors v') = 0, v')))
         else (let v' = add_error (cross_mark @ str '' CI workflow missing'') v
               in Inr (out, length (errors v') = 0, v')))"

subsection \<open>\<open>validate_documentation\<close>\<close>

definition docs :: "pystr list" where
  "docs =
     [str ''README.md'',
      str ''QUICK_START.md'',
      str ''IMPLEMENTATION_COMPLETE.md'',
      str ''FEDERATED_ARCHITECTURE.md'']"

definition check_doc :: "world \<Rightarrow> EggValidator \<Rightarrow> pystr \<Rightarrow> EggValidator" where
  "check_doc w v doc =
     (if path_exists w (joinpath (egg_root v) doc)
      then add_success (check_mark @ str '' Documentation: '' @ doc) v
      else add_warning (warn_mark @ str '' Missing documentation: '' @ doc) v)"

definition validate_documentation :: "world \<Rightarrow> EggValidator \<Rightarrow> check_result" where
  "validate_documentation w v =
     (let v' = foldl (check_doc w) v docs
      in (print_line ([10] @ magnifier @ str '' Validating documentation...''), True, v'))"

subsection \<open>\<open>check_cargo_build\<close>\<close>

definition cargo_command :: "pystr list" where
  "cargo_command = [str ''cargo'', str ''check'', str ''--workspace'']"

definition check_cargo_build :: "world \<Rightarrow> EggValidator \<Rightarrow> check_result" where
  "check_cargo_build w v =
     (let out = print_line ([10] @ magnifier @ str '' Checking cargo build capability...'')
      in case subprocess_run w cargo_command (egg_root v) 60 of
           Completed returncode stderr \<Rightarrow>
             (if returncode = 0
              then (out, True, add_success (check_mark @ str '' Cargo check passed'') v)
              else (out, False,
                    add_warning (warn_mark @ str '' Cargo check failed: '' @ take 200 stderr) v))
         | FileNotFoundError \<Rightarrow>
             (out, True, add_warning (warn_mark @ str '' Cargo not found - skipping build check'') v)
         | TimeoutExpired \<Rightarrow>
             (out, True, add_warning (warn_mark @ str '' Cargo check timed out'') v)
         | OtherException e \<Rightarrow>
             (out, True, add_warning (warn_mark @ str '' Cargo check error: '' @ e) v))"

subsection \<open>\<open>print_report\<close>\<close>

definition rule_line :: pystr where
  "rule_line = replicate 60 61"

definition verdict_failed :: pystr where
  "verdict_failed = [0x274C] @ str '' VALIDATION FAILED''"

definition verdict_warnings :: pystr where
  "verdict_warnings = [0x26A0, 0xFE0F] @ str ''  VALIDATION PASSED WITH WARNINGS''"

definition verdict_passed :: pystr where
  "verdict_passed = [0x2705] @ str '' VALIDATION PASSED''"

definition print_items :: "pystr list \<Rightarrow> pystr" where
  "print_items xs = concat (map (\<lambda>x. print_line (str ''  '' @ x)) xs)"

definition print_report :: "EggValidator \<Rightarrow> pystr \<times> bool" where
  "print_report v =
     (let head =
            print_line ([10] @ rule_line) @
            print_line ([0x1F4CA] @ str '' VALIDATION REPORT'') @
            print_line rule_line;
          succ =
            (if successes v \<noteq> []
             then print_line ([10, 0x2705] @ str '' Successes ('' @
                    str_of_nat (length (successes v)) @ str ''):'') @
                  print_items (take 10 (successes v)) @
                  (if length (successes v) > 10
                   then print_line (str ''  ... and '' @
                          str_of_nat (length (successes v) - 10) @ str '' more'')
                   else [])
             else []);
          warn =
            (if warnings v \<noteq> []
             then print_line ([10, 0x26A0, 0xFE0F] @ str ''  Warnings ('' @
                    str_of_nat (length (warnings v)) @ str ''):'') @
                  print_items (warnings v)
             else []);
          err =
            (if errors v \<noteq> []
             then print_line ([10, 0x274C] @ str '' Errors ('' @
                    str_of_nat (length (errors v)) @ str ''):'') @
                  print_items (errors v)
             else []);
          body = head @ succ @ warn @ err @ print_line ([10] @ rule_line)
      in if errors v \<noteq> [] then (body @ print_line verdict_failed, False)
         else if warnings v \<noteq> [] then (body @ print_line verdict_warnings, True)
         else (body @ print_line verdict_passed, True))"

subsection \<open>\<open>run_all_validations\<close>\<close>

type_synonym validation = "EggValidator \<Rightarrow> (py_exception \<times> pystr) + check_result"

definition validations :: "world \<Rightarrow> validation list" where
  "validations w =
     [\<lambda>v. Inr (validate_structure w v),
      \<lambda>v. Inr (validate_crate_files w v),
      \<lambda>v. Inr (validate_examples w v),
      validate_workspace_config w,
      \<lambda>v. Inr (validate_docker_config w v),
      validate_ci_workflow w,
      \<lambda>v. Inr (validate_documentation w v),
      \<lambda>v. Inr (check_cargo_build w v)]"

text \<open>
  The loop \<open>for validation in validations: validation()\<close>: the booleans are dropped, an
  exception ends the loop.
\<close>

fun run_validations ::
    "validation list \<Rightarrow> pystr \<Rightarrow> EggValidator \<Rightarrow> (py_exception \<times> pystr) + (pystr \<times> EggValidator)" where
  "run_validations [] out v = Inr (out, v)"
| "run_validations (validation # rest) out v =
     (case validation v of
        Inl (ex, printed) \<Rightarrow> Inl (ex, out @ printed)
      | Inr (printed, _, v') \<Rightarrow> run_validations rest (out @ printed) v')"

definition run_all_validations ::
    "world \<Rightarrow> EggValidator \<Rightarrow> (py_exception \<times> pystr) + check_result" where
  "run_all_validations w v =
     (let out = print_line ([0x1F680] @ str '' Starting Quantum LIMIT-Graph Egg Validation'' @ [10])
      in case run_validations (validations w) out v of
           Inl ex \<Rightarrow> Inl ex
         | Inr (out', v') \<Rightarrow>
             (let (report, ok) = print_report v' in Inr (out' @ report, ok, v')))"

subsection \<open>\<open>main\<close>\<close>

text \<open>
  \<open>main\<close> gives the text on standard output and the exit status of the process. An
  exception that nothing catches ends the interpreter with status 1.
\<close>

definition main :: "world \<Rightarrow> path \<Rightarrow> pystr \<times> int" where
  "main w script_dir =
     (let egg_root = script_dir
      in if \<not> path_exists w egg_root
         then (print_line ([0x274C] @ str '' Error: Egg root directory not found: '' @ egg_root), 1)
         else (case run_all_validations w (EggValidator_init egg_root) of
                 Inl (ex, printed) \<Rightarrow> (printed, 1)
               | Inr (printed, success, v) \<Rightarrow> (printed, if success then 0 else 1)))"

section \<open>The entries each check appends, as functions of what it observes\<close>

definition appended ::
    "EggValidator \<Rightarrow> pystr list \<Rightarrow> pystr list \<Rightarrow> pystr list \<Rightarrow> EggValidator" where
  "appended v es ws ss =
     v\<lparr>errors := errors v @ es, warnings := warnings v @ ws, successes := successes v @ ss\<rparr>"

definition dir_error :: "pystr \<Rightarrow> pystr" where
  "dir_error d = cross_mark @ str '' Missing directory: '' @ d"

definition dir_success :: "pystr \<Rightarrow> pystr" where
  "dir_success d = check_mark @ str '' Directory exists: '' @ d"

definition structure_errors :: "world \<Rightarrow> path \<Rightarrow> pystr list" where
  "structure_errors w r =
     map dir_error (filter (\<lambda>d. \<not> path_exists w (joinpath r d)) required_dirs)"

definition structure_successes :: "world \<Rightarrow> path \<Rightarrow> pystr list" where
  "structure_successes w r =
     map dir_success (filter (\<lambda>d. path_exists w (joinpath r d)) required_dirs)"

definition crate_errors :: "world \<Rightarrow> path \<Rightarrow> pystr \<Rightarrow> pystr list" where
  "crate_errors w r crate =
     (if path_exists w (joinpath (joinpath (joinpath r (str ''crates'')) crate) (str ''Cargo.toml''))
      then [] else [cross_mark @ str '' '' @ crate @ str ''/Cargo.toml missing'']) @
     (if path_exists w
           (joinpath (joinpath (joinpath (joinpath r (str ''crates'')) crate) (str ''src''))
              (str ''lib.rs''))
      then [] else [cross_mark @ str '' '' @ crate @ str ''/src/lib.rs missing''])"

definition crate_successes :: "world \<Rightarrow> path \<Rightarrow> pystr \<Rightarrow> pystr list" where
  "crate_successes w r crate =
     (if path_exists w (joinpath (joinpath (joinpath r (str ''crates'')) crate) (str ''Cargo.toml''))
      then [check_mark @ str '' '' @ crate @ str ''/Cargo.toml exists''] else []) @
     (if path_exists w
           (joinpath (joinpath (joinpath (joinpath r (str ''crates'')) crate) (str ''src''))
              (str ''lib.rs''))
      then [check_mark @ str '' '' @ crate @ str ''/src/lib.rs exists''] else [])"

definition crate_files_errors :: "world \<Rightarrow> path \<Rightarrow> pystr list" where
  "crate_files_errors w r = concat (map (crate_errors w r) crates)"

definition crate_files_successes :: "world \<Rightarrow> path \<Rightarrow> pystr list" where
  "crate_files_successes w r = concat (map (crate_successes w r) crates)"

definition example_error :: "pystr \<Rightarrow> pystr" where
  "example_error x = cross_mark @ str '' Missing example: '' @ x"

definition example_success :: "pystr \<Rightarrow> pystr" where
  "example_success x = check_mark @ str '' Example exists: '' @ x"

definition examples_errors :: "world \<Rightarrow> path \<Rightarrow> pystr list" where
  "examples_errors w r =
     map example_error
       (filter (\<lambda>x. \<not> path_exists w (joinpath (joinpath r (str ''examples'')) x))
          required_examples)"

definition examples_successes :: "world \<Rightarrow> path \<Rightarrow> pystr list" where
  "examples_successes w r =
     map example_success
       (filter (\<lambda>x. path_exists w (joinpath (joinpath r (str ''examples'')) x))
          required_examples)"

definition root_cargo_missing :: pystr where
  "root_cargo_missing = cross_mark @ str '' Root Cargo.toml missing''"

definition member_error :: "pystr \<Rightarrow> pystr" where
  "member_error m = cross_mark @ str '' Missing workspace member: '' @ m"

definition member_success :: "pystr \<Rightarrow> pystr" where
  "member_success m = check_mark @ str '' Workspace member: '' @ m"

definition member_errors :: "pystr \<Rightarrow> pystr list" where
  "member_errors content =
     map member_error (filter (\<lambda>m. \<not> contains m content) required_members)"

definition member_successes :: "pystr \<Rightarrow> pystr list" where
  "member_successes content =
     map member_success (filter (\<lambda>m. contains m content) required_members)"

definition docker_warnings :: "world \<Rightarrow> path \<Rightarrow> pystr list" where
  "docker_warnings w r =
     (if path_exists w (joinpath r (str ''Dockerfile'')) then []
      else [warn_mark @ str '' Dockerfile missing'']) @
     (if path_exists w (joinpath r (str ''docker-compose.yml'')) then []
      else [warn_mark @ str '' docker-compose.yml missing'']) @
     (if path_exists w (joinpath r (str ''.dockerignore'')) then []
      else [warn_mark @ str '' .dockerignore missing''])"

definition docker_successes :: "world \<Rightarrow> path \<Rightarrow> pystr list" where
  "docker_successes w r =
     (if path_exists w (joinpath r (str ''Dockerfile''))
      then [check_mark @ str '' Dockerfile exists''] else []) @
     (if path_exists w (joinpath r (str ''docker-compose.yml''))
      then [check_mark @ str '' docker-compose.yml exists''] else []) @
     (if path_exists w (joinpath r (str ''.dockerignore''))
      then [check_mark @ str '' .dockerignore exists''] else [])"

definition ci_missing :: pystr where
  "ci_missing = cross_mark @ str '' CI workflow missing''"

definition ci_present :: pystr where
  "ci_present = check_mark @ str '' CI workflow exists''"

definition job_warning :: "pystr \<Rightarrow> pystr" where
  "job_warning j = warn_mark @ str '' CI job missing: '' @ j"

definition job_success :: "pystr \<Rightarrow> pystr" where
  "job_success j = check_mark @ str '' CI job defined: '' @ j"

definition job_warnings :: "pystr \<Rightarrow> pystr list" where
  "job_warnings content =
     map job_warning (filter (\<lambda>j. \<not> contains (j @ str '':'') content) required_jobs)"

definition job_successes :: "pystr \<Rightarrow> pystr list" where
  "job_successes content =
     map job_success (filter (\<lambda>j. contains (j @ str '':'') content) required_jobs)"

definition doc_warning :: "pystr \<Rightarrow> pystr" where
  "doc_warning d = warn_mark @ str '' Missing documentation: '' @ d"

definition doc_success :: "pystr \<Rightarrow> pystr" where
  "doc_success d = check_mark @ str '' Documentation: '' @ d"

definition docs_warnings :: "world \<Rightarrow> path \<Rightarrow> pystr list" where
  "docs_warnings w r = map doc_warning (filter (\<lambda>d. \<not> path_exists w (joinpath r d)) docs)"

definition docs_successes :: "world \<Rightarrow> path \<Rightarrow> pystr list" where
  "docs_successes w r = map doc_success (filter (\<lambda>d. path_exists w (joinpath r d)) docs)"

definition cargo_warnings :: "run_outcome \<Rightarrow> pystr list" where
  "cargo_warnings outcome =
     (case outcome of
        Completed returncode stderr \<Rightarrow>
          (if returncode = 0 then []
           else [warn_mark @ str '' Cargo check failed: '' @ take 200 stderr])
      | FileNotFoundError \<Rightarrow> [warn_mark @ str '' Cargo not found - skipping build check'']
      | TimeoutExpired \<Rightarrow> [warn_mark @ str '' Cargo check timed out'']
      | OtherException e \<Rightarrow> [warn_mark @ str '' Cargo check error: '' @ e])"

definition cargo_successes :: "run_outcome \<Rightarrow> pystr list" where
  "cargo_successes outcome =
     (case outcome of
        Completed returncode stderr \<Rightarrow>
          (if returncode = 0 then [check_mark @ str '' Cargo check passed''] else [])
      | _ \<Rightarrow> [])"

definition cargo_failed :: "run_outcome \<Rightarrow> bool" where
  "cargo_failed outcome =
     (case outcome of Completed returncode stderr \<Rightarrow> returncode \<noteq> 0 | _ \<Rightarrow> False)"

definition cargo_toml_path :: "path \<Rightarrow> path" where
  "cargo_toml_path r = joinpath r (str ''Cargo.toml'')"

definition ci_workflow_path :: "path \<Rightarrow> path" where
  "ci_workflow_path r =
     joinpath (joinpath (joinpath r (str ''.github'')) (str ''workflows'')) (str ''ci.yml'')"

definition workspace_raises :: "world \<Rightarrow> path \<Rightarrow> bool" where
  "workspace_raises w r \<longleftrightarrow>
     path_exists w (cargo_toml_path r) \<and> isl (read_text w (cargo_toml_path r))"

definition workspace_errors :: "world \<Rightarrow> path \<Rightarrow> pystr list" where
  "workspace_errors w r =
     (if \<not> path_exists w (cargo_toml_path r) then [root_cargo_missing]
      else case read_text w (cargo_toml_path r) of
             Inl ex \<Rightarrow> []
           | Inr content \<Rightarrow> member_errors content)"

definition workspace_successes :: "world \<Rightarrow> path \<Rightarrow> pystr list" where
  "workspace_successes w r =
     (if \<not> path_exists w (cargo_toml_path r) then []
      else case read_text w (cargo_toml_path r) of
             Inl ex \<Rightarrow> []
           | Inr content \<Rightarrow> member_successes content)"

definition ci_raises :: "world \<Rightarrow> path \<Rightarrow> bool" where
  "ci_raises w r \<longleftrightarrow>
     path_exists w (ci_workflow_path r) \<and> isl (read_text w (ci_workflow_path r))"

definition ci_errors :: "world \<Rightarrow> path \<Rightarrow> pystr list" where
  "ci_errors w r = (if path_exists w (ci_workflow_path r) then [] else [ci_missing])"

definition ci_warnings :: "world \<Rightarrow> path \<Rightarrow> pystr list" where
  "ci_warnings w r =
     (if path_exists w (ci_workflow_path r)
      then (case read_text w (ci_workflow_path r) of
              Inl ex \<Rightarrow> []
            | Inr content \<Rightarrow> job_warnings content)
      else [])"

definition ci_successes :: "world \<Rightarrow> path \<Rightarrow> pystr list" where
  "ci_successes w r =
     (if path_exists w (ci_workflow_path r)
      then ci_present #
           (case read_text w (ci_workflow_path r) of
              Inl ex \<Rightarrow> []
            | Inr content \<Rightarrow> job_successes content)
      else [])"

definition all_errors :: "world \<Rightarrow> path \<Rightarrow> pystr list" where
  "all_errors w r =
     structure_errors w r @ crate_files_errors w r @ examples_errors w r @
     workspace_errors w r @ ci_errors w r"

definition all_warnings :: "world \<Rightarrow> path \<Rightarrow> pystr list" where
  "all_warnings w r =
     docker_warnings w r @ ci_warnings w r @ docs_warnings w r @
     cargo_warnings (subprocess_run w cargo_command r 60)"

definition all_successes :: "world \<Rightarrow> path \<Rightarrow> pystr list" where
  "all_successes w r =
     structure_successes w r @ crate_files_successes w r @ examples_successes w r @
     workspace_successes w r @ docker_successes w r @ ci_successes w r @
     docs_successes w r @ cargo_successes (subprocess_run w cargo_command r 60)"

definition reads_succeed :: "world \<Rightarrow> path \<Rightarrow> bool" where
  "reads_succeed w r \<longleftrightarrow> \<not> workspace_raises w r \<and> \<not> ci_raises w r"

section \<open>Vocabulary of the properties\<close>

text \<open>Every list of the second validator starts with the same list of the first.\<close>

definition extends :: "EggValidator \<Rightarrow> EggValidator \<Rightarrow> bool" where
  "extends v v' \<longleftrightarrow>
     prefix (errors v) (errors v') \<and> prefix (warnings v) (warnings v') \<and>
     prefix (successes v) (successes v')"

text \<open>
  Everything whose absence is an error is there: the directories, the two files of each
  crate, the examples, the root \<open>Cargo.toml\<close> with every member in its text, and a
  readable workflow file.
\<close>

definition required_present :: "world \<Rightarrow> path \<Rightarrow> bool" where
  "required_present w r \<longleftrightarrow>
     list_all (\<lambda>d. path_exists w (joinpath r d)) required_dirs \<and>
     list_all (\<lambda>c.
        path_exists w (joinpath (joinpath (joinpath r (str ''crates'')) c) (str ''Cargo.toml'')) \<and>
        path_exists w
          (joinpath (joinpath (joinpath (joinpath r (str ''crates'')) c) (str ''src''))
             (str ''lib.rs''))) crates \<and>
     list_all (\<lambda>x. path_exists w (joinpath (joinpath r (str ''examples'')) x))
       required_examples \<and>
     path_exists w (cargo_toml_path r) \<and>
     (case read_text w (cargo_toml_path r) of
        Inl ex \<Rightarrow> False
      | Inr content \<Rightarrow> list_all (\<lambda>m. contains m content) required_members) \<and>
     path_exists w (ci_workflow_path r) \<and>
     \<not> isl (read_text w (ci_workflow_path r))"

text \<open>The paths whose existence a run asks for, and two worlds that answer a run alike.\<close>

definition observed_paths :: "path \<Rightarrow> path list" where
  "observed_paths r =
     map (joinpath r) required_dirs @
     concat (map (\<lambda>c.
       [joinpath (joinpath (joinpath r (str ''crates'')) c) (str ''Cargo.toml''),
        joinpath (joinpath (joinpath (joinpath r (str ''crates'')) c) (str ''src''))
          (str ''lib.rs'')]) crates) @
     map (joinpath (joinpath r (str ''examples''))) required_examples @
     [cargo_toml_path r,
      joinpath r (str ''Dockerfile''),
      joinpath r (str ''docker-compose.yml''),
      joinpath r (str ''.dockerignore''),
      ci_workflow_path r] @
     map (joinpath r) docs"

definition same_observations :: "world \<Rightarrow> world \<Rightarrow> path \<Rightarrow> bool" where
  "same_observations w1 w2 r \<longleftrightarrow>
     list_all (\<lambda>p. path_exists w1 p = path_exists w2 p) (observed_paths r) \<and>
     read_text w1 (cargo_toml_path r) = read_text w2 (cargo_toml_path r) \<and>
     read_text w1 (ci_workflow_path r) = read_text w2 (ci_workflow_path r) \<and>
     subprocess_run w1 cargo_command r 60 = subprocess_run w2 cargo_command r 60"

subsection \<open>Sample trees\<close>

definition sample_cargo_toml :: pystr where
  "sample_cargo_toml =
     str ''members = [crates/limit-core, crates/limit-storage, crates/limit-orchestration, crates/limit-agents, services/api]''"

definition sample_ci_yml :: pystr where
  "sample_ci_yml = str ''jobs: test: fmt: clippy: build:''"

text \<open>
  A tree rooted at \<open>egg\<close> in which every path exists but the listed ones, the two files
  that are read have the sample texts, and the build tool ends as given.
\<close>

definition sample_world :: "path list \<Rightarrow> run_outcome \<Rightarrow> world" where
  "sample_world missing outcome =
     \<lparr>path_exists = (\<lambda>p. p \<notin> set missing),
      read_text = (\<lambda>p. if p = str ''egg/Cargo.toml'' then Inr sample_cargo_toml
                        else if p = str ''egg/.github/workflows/ci.yml'' then Inr sample_ci_yml
                        else Inl OSError),
      subprocess_run = (\<lambda>args cwd timeout. outcome)\<rparr>"

text \<open>The same tree, complete, with a workflow file of the given text.\<close>

definition world_with_ci :: "pystr \<Rightarrow> world" where
  "world_with_ci content =
     \<lparr>path_exists = (\<lambda>p. True),
      read_text = (\<lambda>p. if p = str ''egg/Cargo.toml'' then Inr sample_cargo_toml
                        else if p = str ''egg/.github/workflows/ci.yml'' then Inr content
                        else Inl OSError),
      subprocess_run = (\<lambda>args cwd timeout. Completed 0 [])\<rparr>"

section \<open>Each check computes exactly these entries\<close>

lemma appended_sel [simp]:
  "egg_root (appended v es ws ss) = egg_root v"
  "errors (appended v es ws ss) = errors v @ es"
  "warnings (appended v es ws ss) = warnings v @ ws"
  "successes (appended v es ws ss) = successes v @ ss"
  by (simp_all add: appended_def)

lemma appended_twice [simp]:
  "appended (appended v es ws ss) es' ws' ss' = appended v (es @ es') (ws @ ws') (ss @ ss')"
  by (simp add: appended_def)

lemma appended_nothing [simp]: "appended v [] [] [] = v"
  by (simp add: appended_def)

lemma add_as_appended:
  "add_error m v = appended v [m] [] []"
  "add_warning m v = appended v [] [m] []"
  "add_success m v = appended v [] [] [m]"
  by (simp_all add: appended_def add_error_def add_warning_def add_success_def)

lemma foldl_appended:
  assumes step: "\<And>v x. f v x = appended v (E (egg_root v) x) (W (egg_root v) x) (S (egg_root v) x)"
  shows "foldl f v xs =
           appended v (concat (map (E (egg_root v)) xs)) (concat (map (W (egg_root v)) xs))
             (concat (map (S (egg_root v)) xs))"
proof (induction xs arbitrary: v)
  case Nil
  show ?case by simp
next
  case (Cons x xs)
  show ?case unfolding foldl_Cons Cons.IH by (simp add: step)
qed

lemma concat_map_if:
  "concat (map (\<lambda>x. if P x then [f x] else []) xs) = map f (filter P xs)"
  by (induction xs) simp_all

lemma concat_map_if_not:
  "concat (map (\<lambda>x. if P x then [] else [f x]) xs) = map f (filter (\<lambda>x. \<not> P x) xs)"
  by (induction xs) simp_all

lemma check_dir_appended:
  "check_dir w v d =
     appended v (if path_exists w (joinpath (egg_root v) d) then [] else [dir_error d]) []
       (if path_exists w (joinpath (egg_root v) d) then [dir_success d] else [])"
  by (simp add: check_dir_def add_as_appended dir_error_def dir_success_def)

lemma validate_structure_snd:
  "snd (validate_structure w v) =
     (errors v = [] \<and> structure_errors w (egg_root v) = [],
      appended v (structure_errors w (egg_root v)) [] (structure_successes w (egg_root v)))"
proof -
  have "foldl (check_dir w) v required_dirs =
          appended v (structure_errors w (egg_root v)) [] (structure_successes w (egg_root v))"
    unfolding structure_errors_def structure_successes_def
    by (subst foldl_appended [where f = "check_dir w", OF check_dir_appended])
       (simp add: concat_map_if concat_map_if_not)
  then show ?thesis
    by (simp add: validate_structure_def)
qed

lemma check_crate_appended:
  "check_crate w v c =
     appended v (crate_errors w (egg_root v) c) [] (crate_successes w (egg_root v) c)"
  by (simp add: check_crate_def Let_def add_as_appended crate_errors_def crate_successes_def)

lemma validate_crate_files_snd:
  "snd (validate_crate_files w v) =
     (errors v = [] \<and> crate_files_errors w (egg_root v) = [],
      appended v (crate_files_errors w (egg_root v)) [] (crate_files_successes w (egg_root v)))"
proof -
  have "foldl (check_crate w) v crates =
          appended v (crate_files_errors w (egg_root v)) [] (crate_files_successes w (egg_root v))"
    unfolding crate_files_errors_def crate_files_successes_def
    by (subst foldl_appended [where f = "check_crate w", OF check_crate_appended]) simp
  then show ?thesis
    by (simp add: validate_crate_files_def)
qed

lemma check_example_appended:
  "check_example w dir v x =
     appended v (if path_exists w (joinpath dir x) then [] else [example_error x]) []
       (if path_exists w (joinpath dir x) then [example_success x] else [])"
  by (simp add: check_example_def add_as_appended example_error_def example_success_def)

lemma validate_examples_snd:
  "snd (validate_examples w v) =
     (errors v = [] \<and> examples_errors w (egg_root v) = [],
      appended v (examples_errors w (egg_root v)) [] (examples_successes w (egg_root v)))"
proof -
  have "foldl (check_example w dir) v required_examples =
          appended v
            (map example_error (filter (\<lambda>x. \<not> path_exists w (joinpath dir x)) required_examples))
            []
            (map example_success (filter (\<lambda>x. path_exists w (joinpath dir x)) required_examples))"
    for dir
    by (subst foldl_appended [where f = "check_example w dir", OF check_example_appended])
       (simp add: concat_map_if concat_map_if_not)
  then show ?thesis
    by (simp add: validate_examples_def Let_def examples_errors_def examples_successes_def)
qed

lemma check_member_appended:
  "check_member content v m =
     appended v (if contains m content then [] else [member_error m]) []
       (if contains m content then [member_success m] else [])"
  by (simp add: check_member_def add_as_appended member_error_def member_success_def)

lemma foldl_check_member:
  "foldl (check_member content) v required_members =
     appended v (member_errors content) [] (member_successes content)"
  unfolding member_errors_def member_successes_def
  by (subst foldl_appended [where f = "check_member content", OF check_member_appended])
     (simp add: concat_map_if concat_map_if_not)

lemma validate_docker_config_snd:
  "snd (validate_docker_config w v) =
     (True, appended v [] (docker_warnings w (egg_root v)) (docker_successes w (egg_root v)))"
  by (simp add: validate_docker_config_def Let_def add_as_appended docker_warnings_def
        docker_successes_def)

lemma check_job_appended:
  "check_job content v j =
     appended v [] (if contains (j @ str '':'') content then [] else [job_warning j])
       (if contains (j @ str '':'') content then [job_success j] else [])"
  by (simp add: check_job_def add_as_appended job_warning_def job_success_def)

lemma foldl_check_job:
  "foldl (check_job content) v required_jobs =
     appended v [] (job_warnings content) (job_successes content)"
  unfolding job_warnings_def job_successes_def
  by (subst foldl_appended [where f = "check_job content", OF check_job_appended])
     (simp add: concat_map_if concat_map_if_not)

lemma check_doc_appended:
  "check_doc w v d =
     appended v [] (if path_exists w (joinpath (egg_root v) d) then [] else [doc_warning d])
       (if path_exists w (joinpath (egg_root v) d) then [doc_success d] else [])"
  by (simp add: check_doc_def add_as_appended doc_warning_def doc_success_def)

lemma validate_documentation_snd:
  "snd (validate_documentation w v) =
     (True, appended v [] (docs_warnings w (egg_root v)) (docs_successes w (egg_root v)))"
proof -
  have "foldl (check_doc w) v docs =
          appended v [] (docs_warnings w (egg_root v)) (docs_successes w (egg_root v))"
    unfolding docs_warnings_def docs_successes_def
    by (subst foldl_appended [where f = "check_doc w", OF check_doc_appended])
       (simp add: concat_map_if concat_map_if_not)
  then show ?thesis
    by (simp add: validate_documentation_def)
qed

lemma check_cargo_build_snd:
  "snd (check_cargo_build w v) =
     (\<not> cargo_failed (subprocess_run w cargo_command (egg_root v) 60),
      appended v []
        (cargo_warnings (subprocess_run w cargo_command (egg_root v) 60))
        (cargo_successes (subprocess_run w cargo_command (egg_root v) 60)))"
  by (simp add: check_cargo_build_def Let_def add_as_appended cargo_warnings_def
        cargo_successes_def cargo_failed_def split: run_outcome.splits)

lemma validate_workspace_config_returns:
  assumes "\<not> workspace_raises w (egg_root v)"
  shows "\<exists>out. validate_workspace_config w v =
           Inr (out, errors v = [] \<and> workspace_errors w (egg_root v) = [],
                appended v (workspace_errors w (egg_root v)) []
                  (workspace_successes w (egg_root v)))"
  using assms
  by (auto simp: validate_workspace_config_def Let_def workspace_raises_def workspace_errors_def
        workspace_successes_def cargo_toml_path_def foldl_check_member add_as_appended
        root_cargo_missing_def split: sum.splits)

lemma validate_workspace_config_raises:
  assumes "workspace_raises w (egg_root v)"
  shows "\<exists>ex out. validate_workspace_config w v = Inl (ex, out)"
  using assms
  by (auto simp: validate_workspace_config_def Let_def workspace_raises_def cargo_toml_path_def
        split: sum.splits)

lemma validate_ci_workflow_returns:
  assumes "\<not> ci_raises w (egg_root v)"
  shows "\<exists>out. validate_ci_workflow w v =
           Inr (out, errors v = [] \<and> ci_errors w (egg_root v) = [],
                appended v (ci_errors w (egg_root v)) (ci_warnings w (egg_root v))
                  (ci_successes w (egg_root v)))"
  using assms
  by (auto simp: validate_ci_workflow_def Let_def ci_raises_def ci_errors_def ci_warnings_def
        ci_successes_def ci_workflow_path_def foldl_check_job add_as_appended
        ci_missing_def ci_present_def split: sum.splits)

lemma validate_ci_workflow_raises:
  assumes "ci_raises w (egg_root v)"
  shows "\<exists>ex out. validate_ci_workflow w v = Inl (ex, out)"
  using assms
  by (auto simp: validate_ci_workflow_def Let_def ci_raises_def ci_workflow_path_def
        split: sum.splits)

lemma run_validations_total:
  "run_validations ((\<lambda>v. Inr (c v)) # rest) out v =
     run_validations rest (out @ fst (c v)) (snd (snd (c v)))"
  by (simp split: prod.splits)

lemma run_validations_Inr:
  "f v = Inr (printed, b, v') \<Longrightarrow>
     run_validations (f # rest) out v = run_validations rest (out @ printed) v'"
  by simp

lemma run_validations_Inl:
  "f v = Inl (ex, printed) \<Longrightarrow> run_validations (f # rest) out v = Inl (ex, out @ printed)"
  by simp

lemma run_validations_returns:
  assumes "reads_succeed w (egg_root v)"
  shows "\<exists>out'. run_validations (validations w) out v =
           Inr (out', appended v (all_errors w (egg_root v)) (all_warnings w (egg_root v))
                        (all_successes w (egg_root v)))"
proof -
  let ?r = "egg_root v"
  define v1 where "v1 = snd (snd (validate_structure w v))"
  define v2 where "v2 = snd (snd (validate_crate_files w v1))"
  define v3 where "v3 = snd (snd (validate_examples w v2))"
  have e1: "v1 = appended v (structure_errors w ?r) [] (structure_successes w ?r)"
    by (simp add: v1_def validate_structure_snd)
  have e2: "v2 = appended v1 (crate_files_errors w ?r) [] (crate_files_successes w ?r)"
    by (simp add: v2_def validate_crate_files_snd e1)
  have r2: "egg_root v2 = ?r"
    by (simp add: e2 e1)
  have e3: "v3 = appended v2 (examples_errors w ?r) [] (examples_successes w ?r)"
    by (simp add: v3_def validate_examples_snd r2)
  have r3: "egg_root v3 = ?r"
    by (simp add: e3 r2)
  from assms have "\<not> workspace_raises w (egg_root v3)" and nci: "\<not> ci_raises w ?r"
    by (simp_all add: reads_succeed_def r3)
  from validate_workspace_config_returns [OF this(1)] obtain o4 b4 v4 where
    ws: "validate_workspace_config w v3 = Inr (o4, b4, v4)" and
    e4: "v4 = appended v3 (workspace_errors w ?r) [] (workspace_successes w ?r)"
    unfolding r3 by blast
  have r4: "egg_root v4 = ?r"
    by (simp add: e4 r3)
  define v5 where "v5 = snd (snd (validate_docker_config w v4))"
  have e5: "v5 = appended v4 [] (docker_warnings w ?r) (docker_successes w ?r)"
    by (simp add: v5_def validate_docker_config_snd r4)
  have r5: "egg_root v5 = ?r"
    by (simp add: e5 r4)
  from nci have "\<not> ci_raises w (egg_root v5)"
    by (simp add: r5)
  from validate_ci_workflow_returns [OF this] obtain o6 b6 v6 where
    ci: "validate_ci_workflow w v5 = Inr (o6, b6, v6)" and
    e6: "v6 = appended v5 (ci_errors w ?r) (ci_warnings w ?r) (ci_successes w ?r)"
    unfolding r5 by blast
  have r6: "egg_root v6 = ?r"
    by (simp add: e6 r5)
  define v7 where "v7 = snd (snd (validate_documentation w v6))"
  have e7: "v7 = appended v6 [] (docs_warnings w ?r) (docs_successes w ?r)"
    by (simp add: v7_def validate_documentation_snd r6)
  have r7: "egg_root v7 = ?r"
    by (simp add: e7 r6)
  define v8 where "v8 = snd (snd (check_cargo_build w v7))"
  have e8: "v8 = appended v7 [] (cargo_warnings (subprocess_run w cargo_command ?r 60))
                   (cargo_successes (subprocess_run w cargo_command ?r 60))"
    by (simp add: v8_def check_cargo_build_snd r7)
  have "\<exists>out'. run_validations (validations w) out v = Inr (out', v8)"
    unfolding validations_def
    by (simp only: run_validations_total v1_def [symmetric] v2_def [symmetric]
          v3_def [symmetric] run_validations_Inr [where f = "validate_workspace_config w", OF ws]
          v5_def [symmetric] run_validations_Inr [where f = "validate_ci_workflow w", OF ci]
          v7_def [symmetric] v8_def [symmetric] run_validations.simps(1)) blast
  moreover have "v8 = appended v (all_errors w ?r) (all_warnings w ?r) (all_successes w ?r)"
    by (simp add: e8 e7 e6 e5 e4 e3 e2 e1 all_errors_def all_warnings_def all_successes_def)
  ultimately show ?thesis
    by simp
qed

lemma print_report_snd: "snd (print_report v) = (errors v = [])"
  by (simp add: print_report_def Let_def)

lemma run_all_validations_returns:
  assumes "reads_succeed w (egg_root v)"
  shows "\<exists>out. run_all_validations w v =
           Inr (out @ fst (print_report (appended v (all_errors w (egg_root v))
                  (all_warnings w (egg_root v)) (all_successes w (egg_root v)))),
                errors v = [] \<and> all_errors w (egg_root v) = [],
                appended v (all_errors w (egg_root v)) (all_warnings w (egg_root v))
                  (all_successes w (egg_root v)))"
proof -
  let ?v' = "appended v (all_errors w (egg_root v)) (all_warnings w (egg_root v))
               (all_successes w (egg_root v))"
  from run_validations_returns [OF assms] obtain out' where
    "run_validations (validations w)
       (print_line ([0x1F680] @ str '' Starting Quantum LIMIT-Graph Egg Validation'' @ [10])) v =
     Inr (out', ?v')"
    by blast
  then have "run_all_validations w v =
               Inr (out' @ fst (print_report ?v'), snd (print_report ?v'), ?v')"
    by (simp add: run_all_validations_def split: prod.splits)
  then show ?thesis
    by (auto simp: print_report_snd)
qed

lemma verdict_lines_differ:
  "\<not> suffix (print_line verdict_warnings) (b @ print_line verdict_failed)"
  "\<not> suffix (print_line verdict_passed) (b @ print_line verdict_failed)"
  "\<not> suffix (print_line verdict_failed) (b @ print_line verdict_warnings)"
  "\<not> suffix (print_line verdict_passed) (b @ print_line verdict_warnings)"
  "\<not> suffix (print_line verdict_failed) (b @ print_line verdict_passed)"
  "\<not> suffix (print_line verdict_warnings) (b @ print_line verdict_passed)"
  by (simp_all add: suffix_to_prefix print_line_def verdict_failed_def verdict_warnings_def
        verdict_passed_def str_def)

lemma print_report_shape:
  "\<exists>body. print_report v =
     (if errors v \<noteq> [] then (body @ print_line verdict_failed, False)
      else if warnings v \<noteq> [] then (body @ print_line verdict_warnings, True)
      else (body @ print_line verdict_passed, True))"
  by (simp add: print_report_def Let_def)

lemma extends_appended: "extends v (appended v es ws ss)"
  by (simp add: extends_def)

lemma contains_sublist: "contains needle content = sublist needle content"
  by (induction content) (auto simp: sublist_Cons_right)

lemma contains_longer: "contains (needle @ tail) content \<Longrightarrow> contains needle content"
  unfolding contains_sublist sublist_def by auto

lemma print_report_ends:
  "suffix (print_line (if errors v \<noteq> [] then verdict_failed
                       else if warnings v \<noteq> [] then verdict_warnings
                       else verdict_passed)) (fst (print_report v))"
  using print_report_shape [of v] by (auto simp: suffix_appendI)

lemma print_report_not_failed:
  "errors v = [] \<Longrightarrow> \<not> suffix (print_line verdict_failed) (fst (print_report v))"
  using print_report_shape [of v] by (auto simp: verdict_lines_differ split: if_splits)

lemma run_all_validations_fresh:
  assumes "reads_succeed w r"
  shows "\<exists>out. run_all_validations w (EggValidator_init r) =
           Inr (out @ fst (print_report
                  \<lparr>egg_root = r, errors = all_errors w r, warnings = all_warnings w r,
                   successes = all_successes w r\<rparr>),
                all_errors w r = [],
                \<lparr>egg_root = r, errors = all_errors w r, warnings = all_warnings w r,
                 successes = all_successes w r\<rparr>)"
proof -
  have "reads_succeed w (egg_root (EggValidator_init r))"
    using assms by (simp add: EggValidator_init_def)
  from run_all_validations_returns [OF this] show ?thesis
    by (simp add: EggValidator_init_def appended_def)
qed

lemma filter_none: "list_all P xs \<Longrightarrow> filter (\<lambda>x. \<not> P x) xs = []"
  by (induction xs) simp_all

lemma required_present_no_errors:
  assumes "required_present w r"
  shows "all_errors w r = []" and "reads_succeed w r"
proof -
  from assms have dirs: "list_all (\<lambda>d. path_exists w (joinpath r d)) required_dirs"
    and files: "list_all (\<lambda>c.
        path_exists w (joinpath (joinpath (joinpath r (str ''crates'')) c) (str ''Cargo.toml'')) \<and>
        path_exists w
          (joinpath (joinpath (joinpath (joinpath r (str ''crates'')) c) (str ''src''))
             (str ''lib.rs''))) crates"
    and examples: "list_all (\<lambda>x. path_exists w (joinpath (joinpath r (str ''examples'')) x))
       required_examples"
    and cargo: "path_exists w (cargo_toml_path r)"
    and ci: "path_exists w (ci_workflow_path r)" "\<not> isl (read_text w (ci_workflow_path r))"
    by (simp_all add: required_present_def)
  from assms obtain content where
    read: "read_text w (cargo_toml_path r) = Inr content" and
    members: "list_all (\<lambda>m. contains m content) required_members"
    by (auto simp: required_present_def split: sum.splits)
  have "structure_errors w r = []"
    using dirs by (simp add: structure_errors_def filter_none)
  moreover have "crate_files_errors w r = []"
    using files by (simp add: crate_files_errors_def crate_errors_def list_all_iff)
  moreover have "examples_errors w r = []"
    using examples by (simp add: examples_errors_def filter_none)
  moreover have "workspace_errors w r = []"
    using cargo read members by (simp add: workspace_errors_def member_errors_def filter_none)
  moreover have "ci_errors w r = []"
    using ci by (simp add: ci_errors_def)
  ultimately show "all_errors w r = []"
    by (simp add: all_errors_def)
  show "reads_succeed w r"
    using read ci by (simp add: reads_succeed_def workspace_raises_def ci_raises_def)
qed

lemma run_validations_cong:
  assumes "list_all2 (\<lambda>f g. \<forall>v. egg_root v = r \<longrightarrow> f v = g v) fs gs"
    and "\<forall>f \<in> set fs. \<forall>v printed b v'. f v = Inr (printed, b, v') \<longrightarrow> egg_root v' = egg_root v"
    and "egg_root v = r"
  shows "run_validations fs out v = run_validations gs out v"
  using assms
proof (induction fs gs arbitrary: out v rule: list_all2_induct)
  case Nil
  show ?case by simp
next
  case (Cons f fs g gs)
  from Cons.hyps(1) Cons.prems(2) have same: "f v = g v"
    by simp
  show ?case
  proof (cases "g v")
    case (Inl e)
    with same show ?thesis
      by (simp split: prod.splits)
  next
    case (Inr res)
    obtain printed b v' where res: "res = (printed, b, v')"
      by (cases res) auto
    from Inr res same have fv: "f v = Inr (printed, b, v')"
      by simp
    with Cons.prems(1) have "egg_root v' = egg_root v"
      by auto
    with Cons.prems(2) have root: "egg_root v' = r"
      by simp
    from Cons.prems(1) have
      "\<forall>f \<in> set fs. \<forall>v printed b v'. f v = Inr (printed, b, v') \<longrightarrow> egg_root v' = egg_root v"
      by simp
    from Cons.IH [OF this root] fv Inr res show ?thesis
      by simp
  qed
qed

lemma total_check_keeps_root:
  "validate_structure w v = (printed, b, v') \<Longrightarrow> egg_root v' = egg_root v"
  "validate_crate_files w v = (printed, b, v') \<Longrightarrow> egg_root v' = egg_root v"
  "validate_examples w v = (printed, b, v') \<Longrightarrow> egg_root v' = egg_root v"
  "validate_docker_config w v = (printed, b, v') \<Longrightarrow> egg_root v' = egg_root v"
  "validate_documentation w v = (printed, b, v') \<Longrightarrow> egg_root v' = egg_root v"
  "check_cargo_build w v = (printed, b, v') \<Longrightarrow> egg_root v' = egg_root v"
  using validate_structure_snd [of w v] validate_crate_files_snd [of w v]
    validate_examples_snd [of w v] validate_docker_config_snd [of w v]
    validate_documentation_snd [of w v] check_cargo_build_snd [of w v]
  by auto

lemma reading_check_keeps_root:
  "validate_workspace_config w v = Inr (printed, b, v') \<Longrightarrow> egg_root v' = egg_root v"
  "validate_ci_workflow w v = Inr (printed, b, v') \<Longrightarrow> egg_root v' = egg_root v"
proof -
  show "egg_root v' = egg_root v"
    if "validate_workspace_config w v = Inr (printed, b, v')"
  proof (cases "workspace_raises w (egg_root v)")
    case True
    from validate_workspace_config_raises [OF this] that show ?thesis by auto
  next
    case False
    from validate_workspace_config_returns [OF this] that show ?thesis by auto
  qed
  show "egg_root v' = egg_root v"
    if "validate_ci_workflow w v = Inr (printed, b, v')"
  proof (cases "ci_raises w (egg_root v)")
    case True
    from validate_ci_workflow_raises [OF this] that show ?thesis by auto
  next
    case False
    from validate_ci_workflow_returns [OF this] that show ?thesis by auto
  qed
qed

lemma validations_keep_root:
  "\<forall>f \<in> set (validations w). \<forall>v printed b v'.
     f v = Inr (printed, b, v') \<longrightarrow> egg_root v' = egg_root v"
  unfolding validations_def
  by (auto dest: total_check_keeps_root reading_check_keeps_root)

lemma same_observations_entries:
  assumes "same_observations w1 w2 r"
  shows "structure_errors w1 r = structure_errors w2 r"
    and "structure_successes w1 r = structure_successes w2 r"
    and "crate_files_errors w1 r = crate_files_errors w2 r"
    and "crate_files_successes w1 r = crate_files_successes w2 r"
    and "examples_errors w1 r = examples_errors w2 r"
    and "examples_successes w1 r = examples_successes w2 r"
    and "docs_warnings w1 r = docs_warnings w2 r"
    and "docs_successes w1 r = docs_successes w2 r"
proof -
  from assms have obs: "path_exists w1 p = path_exists w2 p" if "p \<in> set (observed_paths r)" for p
    using that by (simp add: same_observations_def list_all_iff)
  have dirs: "path_exists w1 (joinpath r d) = path_exists w2 (joinpath r d)"
    if "d \<in> set required_dirs" for d
    using that by (intro obs) (simp add: observed_paths_def)
  have files:
    "path_exists w1 (joinpath (joinpath (joinpath r (str ''crates'')) c) (str ''Cargo.toml'')) =
     path_exists w2 (joinpath (joinpath (joinpath r (str ''crates'')) c) (str ''Cargo.toml''))"
    "path_exists w1 (joinpath (joinpath (joinpath (joinpath r (str ''crates'')) c) (str ''src''))
        (str ''lib.rs'')) =
     path_exists w2 (joinpath (joinpath (joinpath (joinpath r (str ''crates'')) c) (str ''src''))
        (str ''lib.rs''))"
    if "c \<in> set crates" for c
    using that by (intro obs; auto simp: observed_paths_def)+
  have examples:
    "path_exists w1 (joinpath (joinpath r (str ''examples'')) x) =
     path_exists w2 (joinpath (joinpath r (str ''examples'')) x)"
    if "x \<in> set required_examples" for x
    using that by (intro obs) (simp add: observed_paths_def)
  have documents: "path_exists w1 (joinpath r d) = path_exists w2 (joinpath r d)"
    if "d \<in> set docs" for d
    using that by (intro obs) (simp add: observed_paths_def)
  show "structure_errors w1 r = structure_errors w2 r"
    unfolding structure_errors_def using dirs by (simp cong: filter_cong)
  show "structure_successes w1 r = structure_successes w2 r"
    unfolding structure_successes_def using dirs by (simp cong: filter_cong)
  show "crate_files_errors w1 r = crate_files_errors w2 r"
    unfolding crate_files_errors_def crate_errors_def using files by (simp cong: map_cong)
  show "crate_files_successes w1 r = crate_files_successes w2 r"
    unfolding crate_files_successes_def crate_successes_def using files by (simp cong: map_cong)
  show "examples_errors w1 r = examples_errors w2 r"
    unfolding examples_errors_def using examples by (simp cong: filter_cong)
  show "examples_successes w1 r = examples_successes w2 r"
    unfolding examples_successes_def using examples by (simp cong: filter_cong)
  show "docs_warnings w1 r = docs_warnings w2 r"
    unfolding docs_warnings_def using documents by (simp cong: filter_cong)
  show "docs_successes w1 r = docs_successes w2 r"
    unfolding docs_successes_def using documents by (simp cong: filter_cong)
qed

lemma same_observations_checks:
  assumes same: "same_observations w1 w2 r" and root: "egg_root v = r"
  shows "validate_structure w1 v = validate_structure w2 v"
    and "validate_crate_files w1 v = validate_crate_files w2 v"
    and "validate_examples w1 v = validate_examples w2 v"
    and "validate_workspace_config w1 v = validate_workspace_config w2 v"
    and "validate_docker_config w1 v = validate_docker_config w2 v"
    and "validate_ci_workflow w1 v = validate_ci_workflow w2 v"
    and "validate_documentation w1 v = validate_documentation w2 v"
    and "check_cargo_build w1 v = check_cargo_build w2 v"
proof -
  note entries = same_observations_entries [OF same]
  from same have obs: "path_exists w1 p = path_exists w2 p" if "p \<in> set (observed_paths r)" for p
    using that by (simp add: same_observations_def list_all_iff)
  have single:
    "path_exists w1 (joinpath r (str ''Cargo.toml'')) = path_exists w2 (joinpath r (str ''Cargo.toml''))"
    "path_exists w1 (joinpath r (str ''Dockerfile'')) = path_exists w2 (joinpath r (str ''Dockerfile''))"
    "path_exists w1 (joinpath r (str ''docker-compose.yml'')) =
       path_exists w2 (joinpath r (str ''docker-compose.yml''))"
    "path_exists w1 (joinpath r (str ''.dockerignore'')) =
       path_exists w2 (joinpath r (str ''.dockerignore''))"
    "path_exists w1 (joinpath (joinpath (joinpath r (str ''.github'')) (str ''workflows''))
        (str ''ci.yml'')) =
     path_exists w2 (joinpath (joinpath (joinpath r (str ''.github'')) (str ''workflows''))
        (str ''ci.yml''))"
    by (intro obs; simp add: observed_paths_def cargo_toml_path_def ci_workflow_path_def)+
  from same have reads:
    "read_text w1 (joinpath r (str ''Cargo.toml'')) = read_text w2 (joinpath r (str ''Cargo.toml''))"
    "read_text w1 (joinpath (joinpath (joinpath r (str ''.github'')) (str ''workflows''))
        (str ''ci.yml'')) =
     read_text w2 (joinpath (joinpath (joinpath r (str ''.github'')) (str ''workflows''))
        (str ''ci.yml''))"
    and run: "subprocess_run w1 cargo_command r 60 = subprocess_run w2 cargo_command r 60"
    by (simp_all add: same_observations_def cargo_toml_path_def ci_workflow_path_def)
  show "validate_structure w1 v = validate_structure w2 v"
  proof (rule prod_eqI)
    show "fst (validate_structure w1 v) = fst (validate_structure w2 v)"
      by (simp add: validate_structure_def Let_def)
    show "snd (validate_structure w1 v) = snd (validate_structure w2 v)"
      by (simp add: validate_structure_snd root entries)
  qed
  show "validate_crate_files w1 v = validate_crate_files w2 v"
  proof (rule prod_eqI)
    show "fst (validate_crate_files w1 v) = fst (validate_crate_files w2 v)"
      by (simp add: validate_crate_files_def Let_def)
    show "snd (validate_crate_files w1 v) = snd (validate_crate_files w2 v)"
      by (simp add: validate_crate_files_snd root entries)
  qed
  show "validate_examples w1 v = validate_examples w2 v"
  proof (rule prod_eqI)
    show "fst (validate_examples w1 v) = fst (validate_examples w2 v)"
      by (simp add: validate_examples_def Let_def)
    show "snd (validate_examples w1 v) = snd (validate_examples w2 v)"
      by (simp add: validate_examples_snd root entries)
  qed
  show "validate_documentation w1 v = validate_documentation w2 v"
  proof (rule prod_eqI)
    show "fst (validate_documentation w1 v) = fst (validate_documentation w2 v)"
      by (simp add: validate_documentation_def Let_def)
    show "snd (validate_documentation w1 v) = snd (validate_documentation w2 v)"
      by (simp add: validate_documentation_snd root entries)
  qed
  show "validate_workspace_config w1 v = validate_workspace_config w2 v"
    by (simp add: validate_workspace_config_def Let_def root single reads)
  show "validate_docker_config w1 v = validate_docker_config w2 v"
    by (simp add: validate_docker_config_def Let_def root single)
  show "validate_ci_workflow w1 v = validate_ci_workflow w2 v"
    by (simp add: validate_ci_workflow_def Let_def root single reads)
  show "check_cargo_build w1 v = check_cargo_build w2 v"
    by (simp add: check_cargo_build_def Let_def root run)
qed

text \<open>
  The two ways in which the process ends with status 1 before the report: the root is
  not there, or a read raised.
\<close>

lemma main_root_missing:
  "\<not> path_exists w root \<Longrightarrow> snd (main w root) = 1"
  by (simp add: main_def)

lemma main_uncaught_exception:
  "path_exists w root \<Longrightarrow> run_all_validations w (EggValidator_init root) = Inl e \<Longrightarrow>
     snd (main w root) = 1"
  by (simp add: main_def split: prod.splits)

section \<open>The properties of the specification\<close>

text \<open>
  C1. When every check has run (no read raised, and the root exists so that \<open>main\<close>
  reaches the checks), the exit status of the process is 1 exactly when the errors list is
  not empty at the end, and 0 exactly when it is empty, whatever the warnings are.
\<close>

theorem exit_code_iff_errors:
  assumes "path_exists w root" and "reads_succeed w root"
  shows "\<exists>out ok v. run_all_validations w (EggValidator_init root) = Inr (out, ok, v) \<and>
           (snd (main w root) = 1 \<longleftrightarrow> errors v \<noteq> []) \<and>
           (snd (main w root) = 0 \<longleftrightarrow> errors v = [])"
proof -
  have "reads_succeed w (egg_root (EggValidator_init root))"
    using assms(2) by (simp add: EggValidator_init_def)
  from run_all_validations_returns [OF this] obtain out ok v where
    run: "run_all_validations w (EggValidator_init root) = Inr (out, ok, v)" and
    ok: "ok = (errors v = [])"
    by (auto simp: EggValidator_init_def)
  from run ok assms(1) have "snd (main w root) = (if errors v = [] then 0 else 1)"
    by (simp add: main_def)
  with run show ?thesis
    by auto
qed

theorem exit_code_iff_errors_witness:
  "path_exists (sample_world [str ''egg/tests''] FileNotFoundError) (str ''egg'') \<and>
   reads_succeed (sample_world [str ''egg/tests''] FileNotFoundError) (str ''egg'') \<and>
   (\<exists>out ok v.
      run_all_validations (sample_world [str ''egg/tests''] FileNotFoundError)
        (EggValidator_init (str ''egg'')) = Inr (out, ok, v) \<and>
      (snd (main (sample_world [str ''egg/tests''] FileNotFoundError) (str ''egg'')) = 1
         \<longleftrightarrow> errors v \<noteq> []) \<and>
      (snd (main (sample_world [str ''egg/tests''] FileNotFoundError) (str ''egg'')) = 0
         \<longleftrightarrow> errors v = []))"
proof -
  have h1: "path_exists (sample_world [str ''egg/tests''] FileNotFoundError) (str ''egg'')"
    by (simp add: sample_world_def str_def)
  have h2: "reads_succeed (sample_world [str ''egg/tests''] FileNotFoundError) (str ''egg'')"
    by (simp add: reads_succeed_def workspace_raises_def ci_raises_def cargo_toml_path_def
          ci_workflow_path_def joinpath_def sample_world_def str_def)
  show ?thesis
    using h1 h2 exit_code_iff_errors [OF h1 h2] by simp
qed

text \<open>
  C10. When the root \<open>Cargo.toml\<close> does not exist, the workspace-configuration check
  returns at once with \<open>False\<close>: it appends the one missing-root-file error and leaves the
  warnings and the successes as they were, so no entry about a workspace member is
  appended. Nothing is assumed about reading: the file is not opened.
\<close>

theorem workspace_config_missing_root:
  assumes "\<not> path_exists w (joinpath (egg_root v) (str ''Cargo.toml''))"
  shows "validate_workspace_config w v =
           Inr (print_line ([10] @ magnifier @ str '' Validating workspace configuration...''),
                False,
                v\<lparr>errors := errors v @ [cross_mark @ str '' Root Cargo.toml missing'']\<rparr>)"
  using assms by (simp add: validate_workspace_config_def Let_def add_error_def)

theorem workspace_config_missing_root_witness:
  "\<not> path_exists (sample_world [str ''egg/Cargo.toml''] FileNotFoundError)
       (joinpath (egg_root (EggValidator_init (str ''egg''))) (str ''Cargo.toml'')) \<and>
   validate_workspace_config (sample_world [str ''egg/Cargo.toml''] FileNotFoundError)
       (EggValidator_init (str ''egg'')) =
     Inr (print_line ([10] @ magnifier @ str '' Validating workspace configuration...''),
          False,
          (EggValidator_init (str ''egg''))
            \<lparr>errors := errors (EggValidator_init (str ''egg'')) @
               [cross_mark @ str '' Root Cargo.toml missing'']\<rparr>)"
proof -
  have h: "\<not> path_exists (sample_world [str ''egg/Cargo.toml''] FileNotFoundError)
             (joinpath (egg_root (EggValidator_init (str ''egg''))) (str ''Cargo.toml''))"
    by (simp add: sample_world_def joinpath_def EggValidator_init_def str_def)
  show ?thesis
    using h workspace_config_missing_root [OF h] by simp
qed

text \<open>
  C4. The verdict that ends the report is decided by the errors and the warnings alone:
  the report ends with the FAILED line exactly when there is an error, with the
  PASSED WITH WARNINGS line exactly when there is no error and some warning, with the
  PASSED line exactly when both lists are empty; \<open>print_report\<close> returns \<open>False\<close> exactly
  in the first case.
\<close>

theorem print_report_verdict:
  "(suffix (print_line verdict_failed) (fst (print_report v)) \<longleftrightarrow> errors v \<noteq> []) \<and>
   (suffix (print_line verdict_warnings) (fst (print_report v)) \<longleftrightarrow>
      errors v = [] \<and> warnings v \<noteq> []) \<and>
   (suffix (print_line verdict_passed) (fst (print_report v)) \<longleftrightarrow>
      errors v = [] \<and> warnings v = []) \<and>
   (snd (print_report v) = False \<longleftrightarrow> errors v \<noteq> [])"
proof -
  from print_report_shape [of v] obtain body where
    shape: "print_report v =
      (if errors v \<noteq> [] then (body @ print_line verdict_failed, False)
       else if warnings v \<noteq> [] then (body @ print_line verdict_warnings, True)
       else (body @ print_line verdict_passed, True))"
    by blast
  show ?thesis
  proof (cases "errors v \<noteq> []")
    case True
    with shape show ?thesis
      by (simp add: verdict_lines_differ suffix_appendI)
  next
    case no_errors: False
    show ?thesis
    proof (cases "warnings v \<noteq> []")
      case True
      with shape no_errors show ?thesis
        by (simp add: verdict_lines_differ suffix_appendI)
    next
      case False
      with shape no_errors show ?thesis
        by (simp add: verdict_lines_differ suffix_appendI)
    qed
  qed
qed

theorem print_report_verdict_witness:
  "suffix (print_line verdict_warnings)
     (fst (print_report (add_warning (str ''w'') (EggValidator_init (str ''egg''))))) \<and>
   snd (print_report (add_warning (str ''w'') (EggValidator_init (str ''egg''))))"
  using print_report_verdict [of "add_warning (str ''w'') (EggValidator_init (str ''egg''))"]
  by (simp add: add_warning_def EggValidator_init_def)

text \<open>
  C3. Whatever the build tool does, \<open>check_cargo_build\<close> leaves the errors list as it was,
  so the boolean of the report is what it would have been without the check. On a
  non-zero return code, a missing executable, a timeout or any other exception it
  appends one warning and nothing else.
\<close>

theorem check_cargo_build_only_warns:
  assumes "subprocess_run w cargo_command (egg_root v) 60 = outcome"
  shows "errors (snd (snd (check_cargo_build w v))) = errors v \<and>
         snd (print_report (snd (snd (check_cargo_build w v)))) = snd (print_report v) \<and>
         (\<forall>returncode stderr. outcome = Completed returncode stderr \<and> returncode \<noteq> 0 \<longrightarrow>
            snd (check_cargo_build w v) =
              (False, v\<lparr>warnings := warnings v @
                          [warn_mark @ str '' Cargo check failed: '' @ take 200 stderr]\<rparr>)) \<and>
         (outcome = FileNotFoundError \<longrightarrow>
            snd (check_cargo_build w v) =
              (True, v\<lparr>warnings := warnings v @
                         [warn_mark @ str '' Cargo not found - skipping build check'']\<rparr>)) \<and>
         (outcome = TimeoutExpired \<longrightarrow>
            snd (check_cargo_build w v) =
              (True, v\<lparr>warnings := warnings v @ [warn_mark @ str '' Cargo check timed out'']\<rparr>)) \<and>
         (\<forall>e. outcome = OtherException e \<longrightarrow>
            snd (check_cargo_build w v) =
              (True, v\<lparr>warnings := warnings v @
                         [warn_mark @ str '' Cargo check error: '' @ e]\<rparr>))"
  using assms
  by (cases outcome)
     (simp_all add: check_cargo_build_def Let_def add_warning_def add_success_def
        print_report_snd)

theorem check_cargo_build_only_warns_witness:
  "subprocess_run (sample_world [] (Completed 101 (str ''error: could not compile'')))
     cargo_command (egg_root (EggValidator_init (str ''egg''))) 60 =
     Completed 101 (str ''error: could not compile'') \<and>
   errors (snd (snd (check_cargo_build
     (sample_world [] (Completed 101 (str ''error: could not compile'')))
     (EggValidator_init (str ''egg''))))) = [] \<and>
   snd (check_cargo_build (sample_world [] (Completed 101 (str ''error: could not compile'')))
     (EggValidator_init (str ''egg''))) =
     (False, (EggValidator_init (str ''egg''))
        \<lparr>warnings := [warn_mark @ str '' Cargo check failed: error: could not compile'']\<rparr>)"
proof -
  have h: "subprocess_run (sample_world [] (Completed 101 (str ''error: could not compile'')))
     cargo_command (egg_root (EggValidator_init (str ''egg''))) 60 =
     Completed 101 (str ''error: could not compile'')"
    by (simp add: sample_world_def)
  show ?thesis
    using h check_cargo_build_only_warns [OF h]
    by (simp add: EggValidator_init_def str_def)
qed

text \<open>
  C2 fails as stated: the boolean of a check is not about that check alone. \<open>check_cargo_build\<close> returns
  \<open>False\<close> on a non-zero return code although it appends no error; and in a tree that
  lacks only the \<open>tests\<close> directory, \<open>validate_crate_files\<close> returns \<open>False\<close> although
  it appends no error, because \<open>validate_structure\<close> appended one before it.
\<close>

theorem check_boolean_counterexample:
  "fst (snd (check_cargo_build (sample_world [] (Completed 1 []))
              (EggValidator_init (str ''egg'')))) = False \<and>
   errors (snd (snd (check_cargo_build (sample_world [] (Completed 1 []))
              (EggValidator_init (str ''egg''))))) =
     errors (EggValidator_init (str ''egg'')) \<and>
   errors (snd (snd (validate_structure (sample_world [str ''egg/tests''] FileNotFoundError)
              (EggValidator_init (str ''egg''))))) =
     [cross_mark @ str '' Missing directory: tests''] \<and>
   fst (snd (validate_crate_files (sample_world [str ''egg/tests''] FileNotFoundError)
      (snd (snd (validate_structure (sample_world [str ''egg/tests''] FileNotFoundError)
                  (EggValidator_init (str ''egg''))))))) = False \<and>
   errors (snd (snd (validate_crate_files (sample_world [str ''egg/tests''] FileNotFoundError)
      (snd (snd (validate_structure (sample_world [str ''egg/tests''] FileNotFoundError)
                  (EggValidator_init (str ''egg'')))))))) =
     errors (snd (snd (validate_structure (sample_world [str ''egg/tests''] FileNotFoundError)
                  (EggValidator_init (str ''egg'')))))"
proof -
  have cargo: "snd (check_cargo_build (sample_world [] (Completed 1 []))
                 (EggValidator_init (str ''egg''))) =
     (False, add_warning (warn_mark @ str '' Cargo check failed: '') (EggValidator_init (str ''egg'')))"
    by (simp add: check_cargo_build_def sample_world_def)
  have root: "egg_root (EggValidator_init (str ''egg'')) = str ''egg''"
    by (simp add: EggValidator_init_def)
  have dirs: "structure_errors (sample_world [str ''egg/tests''] FileNotFoundError) (str ''egg'') =
                [cross_mark @ str '' Missing directory: tests'']"
    by (simp add: structure_errors_def required_dirs_def sample_world_def joinpath_def
          dir_error_def str_def)
  have files: "crate_files_errors (sample_world [str ''egg/tests''] FileNotFoundError) (str ''egg'') = []"
    by (simp add: crate_files_errors_def crate_errors_def crates_def sample_world_def
          joinpath_def str_def)
  show ?thesis
    by (simp add: cargo validate_structure_snd validate_crate_files_snd root dirs files
          add_warning_def)
       (simp add: EggValidator_init_def)
qed

text \<open>
  C2, as the code has it. The checks that can append an error (structure, crate files,
  examples, workspace configuration, CI workflow) return \<open>True\<close> exactly when the errors
  list of the validator is empty after the check, whichever check filled it. The Docker
  and the documentation check always return \<open>True\<close>. The build check returns \<open>False\<close>
  exactly when the build tool completed with a non-zero return code.
\<close>

theorem check_return_values:
  "fst (snd (validate_structure w v)) = (errors (snd (snd (validate_structure w v))) = []) \<and>
   fst (snd (validate_crate_files w v)) = (errors (snd (snd (validate_crate_files w v))) = []) \<and>
   fst (snd (validate_examples w v)) = (errors (snd (snd (validate_examples w v))) = []) \<and>
   (\<not> workspace_raises w (egg_root v) \<longrightarrow>
      (\<exists>out v'. validate_workspace_config w v = Inr (out, errors v' = [], v'))) \<and>
   fst (snd (validate_docker_config w v)) = True \<and>
   (\<not> ci_raises w (egg_root v) \<longrightarrow>
      (\<exists>out v'. validate_ci_workflow w v = Inr (out, errors v' = [], v'))) \<and>
   fst (snd (validate_documentation w v)) = True \<and>
   fst (snd (check_cargo_build w v)) =
     (\<forall>returncode stderr.
        subprocess_run w cargo_command (egg_root v) 60 = Completed returncode stderr \<longrightarrow>
        returncode = 0)"
proof -
  have ws: "\<exists>out v'. validate_workspace_config w v = Inr (out, errors v' = [], v')"
    if "\<not> workspace_raises w (egg_root v)"
    using validate_workspace_config_returns [OF that] by auto
  have ci: "\<exists>out v'. validate_ci_workflow w v = Inr (out, errors v' = [], v')"
    if "\<not> ci_raises w (egg_root v)"
    using validate_ci_workflow_returns [OF that] by auto
  have cargo: "fst (snd (check_cargo_build w v)) =
     (\<forall>returncode stderr.
        subprocess_run w cargo_command (egg_root v) 60 = Completed returncode stderr \<longrightarrow>
        returncode = 0)"
    by (cases "subprocess_run w cargo_command (egg_root v) 60")
       (simp_all add: check_cargo_build_snd cargo_failed_def)
  show ?thesis
    using ws ci cargo
    by (simp add: validate_structure_snd validate_crate_files_snd validate_examples_snd
          validate_docker_config_snd validate_documentation_snd)
qed

theorem check_return_values_witness:
  "\<not> workspace_raises (sample_world [str ''egg/tests''] FileNotFoundError)
       (egg_root (EggValidator_init (str ''egg''))) \<and>
   \<not> ci_raises (sample_world [str ''egg/tests''] FileNotFoundError)
       (egg_root (EggValidator_init (str ''egg''))) \<and>
   (\<exists>out v'. validate_workspace_config (sample_world [str ''egg/tests''] FileNotFoundError)
        (EggValidator_init (str ''egg'')) = Inr (out, errors v' = [], v')) \<and>
   (\<exists>out v'. validate_ci_workflow (sample_world [str ''egg/tests''] FileNotFoundError)
        (EggValidator_init (str ''egg'')) = Inr (out, errors v' = [], v')) \<and>
   fst (snd (check_cargo_build (sample_world [str ''egg/tests''] FileNotFoundError)
        (EggValidator_init (str ''egg''))))"
proof -
  have h1: "\<not> workspace_raises (sample_world [str ''egg/tests''] FileNotFoundError)
              (egg_root (EggValidator_init (str ''egg'')))"
    by (simp add: workspace_raises_def cargo_toml_path_def joinpath_def sample_world_def
          EggValidator_init_def str_def)
  have h2: "\<not> ci_raises (sample_world [str ''egg/tests''] FileNotFoundError)
              (egg_root (EggValidator_init (str ''egg'')))"
    by (simp add: ci_raises_def ci_workflow_path_def joinpath_def sample_world_def
          EggValidator_init_def str_def)
  have h3: "subprocess_run (sample_world [str ''egg/tests''] FileNotFoundError) cargo_command
              (egg_root (EggValidator_init (str ''egg''))) 60 = FileNotFoundError"
    by (simp add: sample_world_def)
  show ?thesis
    using h1 h2 h3
      check_return_values [of "sample_world [str ''egg/tests''] FileNotFoundError"
        "EggValidator_init (str ''egg'')"]
    by simp
qed

text \<open>
  C8. Every check leaves each of the three lists with its former content as a prefix:
  entries are only added at the end. The same holds for the whole run. (A check that
  reads a file is taken where its read does not raise; when it raises there is no
  validator left to look at.)
\<close>

theorem lists_append_only:
  "extends v (snd (snd (validate_structure w v))) \<and>
   extends v (snd (snd (validate_crate_files w v))) \<and>
   extends v (snd (snd (validate_examples w v))) \<and>
   (\<not> workspace_raises w (egg_root v) \<longrightarrow>
      (\<exists>out b v'. validate_workspace_config w v = Inr (out, b, v') \<and> extends v v')) \<and>
   extends v (snd (snd (validate_docker_config w v))) \<and>
   (\<not> ci_raises w (egg_root v) \<longrightarrow>
      (\<exists>out b v'. validate_ci_workflow w v = Inr (out, b, v') \<and> extends v v')) \<and>
   extends v (snd (snd (validate_documentation w v))) \<and>
   extends v (snd (snd (check_cargo_build w v))) \<and>
   (reads_succeed w (egg_root v) \<longrightarrow>
      (\<exists>out ok v'. run_all_validations w v = Inr (out, ok, v') \<and> extends v v'))"
proof -
  have ws: "\<exists>out b v'. validate_workspace_config w v = Inr (out, b, v') \<and> extends v v'"
    if "\<not> workspace_raises w (egg_root v)"
    using validate_workspace_config_returns [OF that] extends_appended by blast
  have ci: "\<exists>out b v'. validate_ci_workflow w v = Inr (out, b, v') \<and> extends v v'"
    if "\<not> ci_raises w (egg_root v)"
    using validate_ci_workflow_returns [OF that] extends_appended by blast
  have run: "\<exists>out ok v'. run_all_validations w v = Inr (out, ok, v') \<and> extends v v'"
    if "reads_succeed w (egg_root v)"
    using run_all_validations_returns [OF that] extends_appended by blast
  show ?thesis
    using ws ci run
    by (simp add: validate_structure_snd validate_crate_files_snd validate_examples_snd
          validate_docker_config_snd validate_documentation_snd check_cargo_build_snd
          extends_appended)
qed

theorem lists_append_only_witness:
  "reads_succeed (sample_world [str ''egg/Dockerfile''] TimeoutExpired)
     (egg_root (EggValidator_init (str ''egg''))) \<and>
   (\<exists>out ok v'. run_all_validations (sample_world [str ''egg/Dockerfile''] TimeoutExpired)
       (EggValidator_init (str ''egg'')) = Inr (out, ok, v') \<and>
     extends (EggValidator_init (str ''egg'')) v') \<and>
   (\<exists>out b v'. validate_workspace_config (sample_world [str ''egg/Dockerfile''] TimeoutExpired)
       (EggValidator_init (str ''egg'')) = Inr (out, b, v') \<and>
     extends (EggValidator_init (str ''egg'')) v') \<and>
   (\<exists>out b v'. validate_ci_workflow (sample_world [str ''egg/Dockerfile''] TimeoutExpired)
       (EggValidator_init (str ''egg'')) = Inr (out, b, v') \<and>
     extends (EggValidator_init (str ''egg'')) v')"
proof -
  have h: "reads_succeed (sample_world [str ''egg/Dockerfile''] TimeoutExpired)
             (egg_root (EggValidator_init (str ''egg'')))"
    by (simp add: reads_succeed_def workspace_raises_def ci_raises_def cargo_toml_path_def
          ci_workflow_path_def joinpath_def sample_world_def EggValidator_init_def str_def)
  then have h': "\<not> workspace_raises (sample_world [str ''egg/Dockerfile''] TimeoutExpired)
                    (egg_root (EggValidator_init (str ''egg''))) \<and>
                 \<not> ci_raises (sample_world [str ''egg/Dockerfile''] TimeoutExpired)
                    (egg_root (EggValidator_init (str ''egg'')))"
    by (simp add: reads_succeed_def)
  show ?thesis
    using h h'
      lists_append_only [of "EggValidator_init (str ''egg'')"
        "sample_world [str ''egg/Dockerfile''] TimeoutExpired"]
    by simp
qed

text \<open>
  C7. In the CI-workflow check, a missing workflow file appends one error and nothing
  else: no entry about a job. When the file exists and is read, no error is appended,
  and a warning is appended for each required job whose name followed by a colon does
  not occur in the text; in particular for each required job whose name does not occur
  in the text at all.
\<close>

theorem ci_workflow_entries:
  "(\<not> path_exists w (ci_workflow_path (egg_root v)) \<longrightarrow>
      (\<exists>out. validate_ci_workflow w v =
         Inr (out, False, v\<lparr>errors := errors v @ [cross_mark @ str '' CI workflow missing'']\<rparr>))) \<and>
   (\<forall>content.
      path_exists w (ci_workflow_path (egg_root v)) \<and>
      read_text w (ci_workflow_path (egg_root v)) = Inr content \<longrightarrow>
      (\<exists>out v'. validate_ci_workflow w v = Inr (out, errors v = [], v') \<and>
         errors v' = errors v \<and>
         warnings v' = warnings v @
           map (\<lambda>job. warn_mark @ str '' CI job missing: '' @ job)
             (filter (\<lambda>job. \<not> contains (job @ str '':'') content) required_jobs) \<and>
         successes v' = successes v @
           (check_mark @ str '' CI workflow exists'') #
           map (\<lambda>job. check_mark @ str '' CI job defined: '' @ job)
             (filter (\<lambda>job. contains (job @ str '':'') content) required_jobs) \<and>
         (\<forall>job \<in> set required_jobs. \<not> contains job content \<longrightarrow>
            warn_mark @ str '' CI job missing: '' @ job \<in> set (warnings v'))))"
proof (intro conjI impI allI)
  assume "\<not> path_exists w (ci_workflow_path (egg_root v))"
  then show "\<exists>out. validate_ci_workflow w v =
         Inr (out, False, v\<lparr>errors := errors v @ [cross_mark @ str '' CI workflow missing'']\<rparr>)"
    by (simp add: validate_ci_workflow_def Let_def ci_workflow_path_def add_error_def)
next
  fix content
  assume present: "path_exists w (ci_workflow_path (egg_root v)) \<and>
      read_text w (ci_workflow_path (egg_root v)) = Inr content"
  then have "\<not> ci_raises w (egg_root v)"
    by (simp add: ci_raises_def)
  from validate_ci_workflow_returns [OF this] present obtain out where
    "validate_ci_workflow w v =
       Inr (out, errors v = [],
            appended v [] (job_warnings content) (ci_present # job_successes content))"
    by (auto simp: ci_errors_def ci_warnings_def ci_successes_def)
  moreover have "warn_mark @ str '' CI job missing: '' @ job \<in> set (job_warnings content)"
    if "job \<in> set required_jobs" and "\<not> contains job content" for job
    using that contains_longer [of job "str '':''" content]
    by (auto simp: job_warnings_def job_warning_def)
  ultimately show "\<exists>out v'. validate_ci_workflow w v = Inr (out, errors v = [], v') \<and>
         errors v' = errors v \<and>
         warnings v' = warnings v @
           map (\<lambda>job. warn_mark @ str '' CI job missing: '' @ job)
             (filter (\<lambda>job. \<not> contains (job @ str '':'') content) required_jobs) \<and>
         successes v' = successes v @
           (check_mark @ str '' CI workflow exists'') #
           map (\<lambda>job. check_mark @ str '' CI job defined: '' @ job)
             (filter (\<lambda>job. contains (job @ str '':'') content) required_jobs) \<and>
         (\<forall>job \<in> set required_jobs. \<not> contains job content \<longrightarrow>
            warn_mark @ str '' CI job missing: '' @ job \<in> set (warnings v'))"
    by (auto simp: job_warnings_def job_successes_def job_warning_def job_success_def
          ci_present_def)
qed

theorem ci_workflow_entries_witness:
  "\<not> path_exists (sample_world [str ''egg/.github/workflows/ci.yml''] FileNotFoundError)
       (ci_workflow_path (egg_root (EggValidator_init (str ''egg'')))) \<and>
   (\<exists>out. validate_ci_workflow
       (sample_world [str ''egg/.github/workflows/ci.yml''] FileNotFoundError)
       (EggValidator_init (str ''egg'')) =
     Inr (out, False,
          (EggValidator_init (str ''egg''))\<lparr>errors := [cross_mark @ str '' CI workflow missing'']\<rparr>)) \<and>
   path_exists (world_with_ci (str ''jobs: test: fmt: build:''))
       (ci_workflow_path (egg_root (EggValidator_init (str ''egg'')))) \<and>
   read_text (world_with_ci (str ''jobs: test: fmt: build:''))
       (ci_workflow_path (egg_root (EggValidator_init (str ''egg'')))) =
     Inr (str ''jobs: test: fmt: build:'') \<and>
   (\<exists>out v'. validate_ci_workflow (world_with_ci (str ''jobs: test: fmt: build:''))
       (EggValidator_init (str ''egg'')) = Inr (out, True, v') \<and>
     errors v' = [] \<and>
     warnings v' = [warn_mark @ str '' CI job missing: clippy''])"
proof -
  have root: "egg_root (EggValidator_init (str ''egg'')) = str ''egg''"
    by (simp add: EggValidator_init_def)
  have path: "ci_workflow_path (str ''egg'') = str ''egg/.github/workflows/ci.yml''"
    by (simp add: ci_workflow_path_def joinpath_def str_def)
  have h1: "\<not> path_exists (sample_world [str ''egg/.github/workflows/ci.yml''] FileNotFoundError)
       (ci_workflow_path (egg_root (EggValidator_init (str ''egg''))))"
    by (simp add: root path sample_world_def)
  have h2: "path_exists (world_with_ci (str ''jobs: test: fmt: build:''))
       (ci_workflow_path (egg_root (EggValidator_init (str ''egg'')))) \<and>
     read_text (world_with_ci (str ''jobs: test: fmt: build:''))
       (ci_workflow_path (egg_root (EggValidator_init (str ''egg'')))) =
     Inr (str ''jobs: test: fmt: build:'')"
    by (simp add: root path world_with_ci_def) (simp add: str_def)
  have jobs: "filter (\<lambda>job. \<not> contains (job @ str '':'') (str ''jobs: test: fmt: build:''))
                required_jobs = [str ''clippy'']"
    by (simp add: required_jobs_def str_def)
  have init: "errors (EggValidator_init (str ''egg'')) = []"
    "warnings (EggValidator_init (str ''egg'')) = []"
    by (simp_all add: EggValidator_init_def)
  from h1 ci_workflow_entries
         [of "sample_world [str ''egg/.github/workflows/ci.yml''] FileNotFoundError"
             "EggValidator_init (str ''egg'')"]
  have a: "\<exists>out. validate_ci_workflow
       (sample_world [str ''egg/.github/workflows/ci.yml''] FileNotFoundError)
       (EggValidator_init (str ''egg'')) =
     Inr (out, False,
          (EggValidator_init (str ''egg''))\<lparr>errors := [cross_mark @ str '' CI workflow missing'']\<rparr>)"
    by (simp add: init)
  from h2 ci_workflow_entries
         [of "world_with_ci (str ''jobs: test: fmt: build:'')" "EggValidator_init (str ''egg'')"]
  have b: "\<exists>out v'. validate_ci_workflow (world_with_ci (str ''jobs: test: fmt: build:''))
       (EggValidator_init (str ''egg'')) = Inr (out, True, v') \<and>
     errors v' = [] \<and>
     warnings v' = [warn_mark @ str '' CI job missing: clippy'']"
    by (simp add: init jobs) (auto simp: str_def)
  from h1 a h2 b show ?thesis
    by blast
qed

text \<open>
  C5. When a required directory is absent, the run (with a fresh validator, and reads
  that do not raise) ends with the error that names this directory in the errors list,
  the report ends with the FAILED line, \<open>run_all_validations\<close> returns \<open>False\<close> and the
  exit status is 1. This holds whatever else is present or absent, so in particular
  when the directory is the only thing that is missing.
\<close>

theorem missing_directory_fails:
  assumes "d \<in> set required_dirs"
    and "\<not> path_exists w (joinpath r d)"
    and "reads_succeed w r"
  shows "\<exists>out v. run_all_validations w (EggValidator_init r) = Inr (out, False, v) \<and>
           cross_mark @ str '' Missing directory: '' @ d \<in> set (errors v) \<and>
           suffix (print_line verdict_failed) out \<and>
           (path_exists w r \<longrightarrow> snd (main w r) = 1)"
proof -
  let ?v = "\<lparr>egg_root = r, errors = all_errors w r, warnings = all_warnings w r,
             successes = all_successes w r\<rparr>"
  from run_all_validations_fresh [OF assms(3)] obtain out where
    run: "run_all_validations w (EggValidator_init r) =
            Inr (out @ fst (print_report ?v), all_errors w r = [], ?v)"
    by blast
  have mem: "cross_mark @ str '' Missing directory: '' @ d \<in> set (all_errors w r)"
    using assms(1,2) by (auto simp: all_errors_def structure_errors_def dir_error_def)
  then have ne: "all_errors w r \<noteq> []"
    by auto
  have "suffix (print_line verdict_failed) (fst (print_report ?v))"
    using print_report_ends [of ?v] ne by simp
  then have "suffix (print_line verdict_failed) (out @ fst (print_report ?v))"
    by (rule suffix_appendI)
  moreover have "path_exists w r \<longrightarrow> snd (main w r) = 1"
    using run ne by (simp add: main_def)
  ultimately show ?thesis
    using run mem ne by simp
qed

theorem missing_directory_fails_witness:
  "str ''tests'' \<in> set required_dirs \<and>
   \<not> path_exists (sample_world [str ''egg/tests''] (Completed 0 []))
       (joinpath (str ''egg'') (str ''tests'')) \<and>
   reads_succeed (sample_world [str ''egg/tests''] (Completed 0 [])) (str ''egg'') \<and>
   (\<exists>out v. run_all_validations (sample_world [str ''egg/tests''] (Completed 0 []))
        (EggValidator_init (str ''egg'')) = Inr (out, False, v) \<and>
      cross_mark @ str '' Missing directory: tests'' \<in> set (errors v) \<and>
      suffix (print_line verdict_failed) out \<and>
      snd (main (sample_world [str ''egg/tests''] (Completed 0 [])) (str ''egg'')) = 1)"
proof -
  have h1: "str ''tests'' \<in> set required_dirs"
    by (simp add: required_dirs_def)
  have h2: "\<not> path_exists (sample_world [str ''egg/tests''] (Completed 0 []))
              (joinpath (str ''egg'') (str ''tests''))"
    by (simp add: sample_world_def joinpath_def str_def)
  have h3: "reads_succeed (sample_world [str ''egg/tests''] (Completed 0 [])) (str ''egg'')"
    by (simp add: reads_succeed_def workspace_raises_def ci_raises_def cargo_toml_path_def
          ci_workflow_path_def joinpath_def sample_world_def str_def)
  have h4: "path_exists (sample_world [str ''egg/tests''] (Completed 0 [])) (str ''egg'')"
    by (simp add: sample_world_def str_def)
  have s: "str '' Missing directory: '' @ str ''tests'' = str '' Missing directory: tests''"
    by (simp add: str_def)
  show ?thesis
    using h1 h2 h3 h4 missing_directory_fails [OF h1 h2 h3]
    by (simp add: s)
qed

text \<open>
  C6. When everything whose absence is an error is present, the run with a fresh
  validator returns \<open>True\<close> with an empty errors list. Each of \<open>Dockerfile\<close>,
  \<open>docker-compose.yml\<close> and \<open>.dockerignore\<close> that is absent has its warning in the
  warnings list, and when at least one of them is absent the report ends with the
  PASSED WITH WARNINGS line, not with the FAILED line; the exit status is 0.
\<close>

theorem missing_docker_files_only_warn:
  assumes "required_present w r"
  shows "\<exists>out v. run_all_validations w (EggValidator_init r) = Inr (out, True, v) \<and>
           errors v = [] \<and>
           (\<not> path_exists w (joinpath r (str ''Dockerfile'')) \<longrightarrow>
              warn_mark @ str '' Dockerfile missing'' \<in> set (warnings v)) \<and>
           (\<not> path_exists w (joinpath r (str ''docker-compose.yml'')) \<longrightarrow>
              warn_mark @ str '' docker-compose.yml missing'' \<in> set (warnings v)) \<and>
           (\<not> path_exists w (joinpath r (str ''.dockerignore'')) \<longrightarrow>
              warn_mark @ str '' .dockerignore missing'' \<in> set (warnings v)) \<and>
           (\<not> path_exists w (joinpath r (str ''Dockerfile'')) \<or>
            \<not> path_exists w (joinpath r (str ''docker-compose.yml'')) \<or>
            \<not> path_exists w (joinpath r (str ''.dockerignore'')) \<longrightarrow>
              suffix (print_line verdict_warnings) out \<and>
              \<not> suffix (print_line verdict_failed) out) \<and>
           (path_exists w r \<longrightarrow> snd (main w r) = 0)"
proof -
  let ?v = "\<lparr>egg_root = r, errors = all_errors w r, warnings = all_warnings w r,
             successes = all_successes w r\<rparr>"
  note none = required_present_no_errors [OF assms]
  from run_all_validations_fresh [OF none(2)] obtain out where
    run: "run_all_validations w (EggValidator_init r) =
            Inr (out @ fst (print_report ?v), True, ?v)"
    by (auto simp: none(1))
  have w1: "warn_mark @ str '' Dockerfile missing'' \<in> set (all_warnings w r)"
    if "\<not> path_exists w (joinpath r (str ''Dockerfile''))"
    using that by (simp add: all_warnings_def docker_warnings_def)
  have w2: "warn_mark @ str '' docker-compose.yml missing'' \<in> set (all_warnings w r)"
    if "\<not> path_exists w (joinpath r (str ''docker-compose.yml''))"
    using that by (simp add: all_warnings_def docker_warnings_def)
  have w3: "warn_mark @ str '' .dockerignore missing'' \<in> set (all_warnings w r)"
    if "\<not> path_exists w (joinpath r (str ''.dockerignore''))"
    using that by (simp add: all_warnings_def docker_warnings_def)
  have verdict: "suffix (print_line verdict_warnings) (out @ fst (print_report ?v)) \<and>
                 \<not> suffix (print_line verdict_failed) (out @ fst (print_report ?v))"
    if "\<not> path_exists w (joinpath r (str ''Dockerfile'')) \<or>
        \<not> path_exists w (joinpath r (str ''docker-compose.yml'')) \<or>
        \<not> path_exists w (joinpath r (str ''.dockerignore''))"
  proof -
    from that w1 w2 w3 have ne: "all_warnings w r \<noteq> []"
      by auto
    from print_report_shape [of ?v] obtain body where
      "fst (print_report ?v) = body @ print_line verdict_warnings"
      using ne none(1) by auto
    then have "out @ fst (print_report ?v) = (out @ body) @ print_line verdict_warnings"
      by simp
    then show ?thesis
      by (simp only: verdict_lines_differ suffix_appendI suffix_order.refl simp_thms)
  qed
  have "path_exists w r \<longrightarrow> snd (main w r) = 0"
    using run by (simp add: main_def)
  with run w1 w2 w3 verdict show ?thesis
    by (simp add: none(1))
qed

theorem missing_docker_files_only_warn_witness:
  "required_present (sample_world [str ''egg/Dockerfile''] (Completed 0 [])) (str ''egg'') \<and>
   (\<exists>out v. run_all_validations (sample_world [str ''egg/Dockerfile''] (Completed 0 []))
        (EggValidator_init (str ''egg'')) = Inr (out, True, v) \<and>
      errors v = [] \<and>
      warn_mark @ str '' Dockerfile missing'' \<in> set (warnings v) \<and>
      suffix (print_line verdict_warnings) out \<and>
      \<not> suffix (print_line verdict_failed) out \<and>
      snd (main (sample_world [str ''egg/Dockerfile''] (Completed 0 [])) (str ''egg'')) = 0)"
proof -
  have exists: "path_exists (sample_world [str ''egg/Dockerfile''] (Completed 0 [])) p =
                  (p \<noteq> str ''egg/Dockerfile'')" for p
    by (simp add: sample_world_def)
  have reads:
    "read_text (sample_world [str ''egg/Dockerfile''] (Completed 0 [])) (cargo_toml_path (str ''egg'')) =
       Inr sample_cargo_toml"
    "read_text (sample_world [str ''egg/Dockerfile''] (Completed 0 []))
       (ci_workflow_path (str ''egg'')) = Inr sample_ci_yml"
    by (simp_all add: sample_world_def cargo_toml_path_def ci_workflow_path_def joinpath_def
          str_def)
  have members: "list_all (\<lambda>m. contains m sample_cargo_toml) required_members"
    by (simp add: required_members_def sample_cargo_toml_def str_def)
  have h: "required_present (sample_world [str ''egg/Dockerfile''] (Completed 0 [])) (str ''egg'')"
    unfolding required_present_def exists reads
    by (simp add: members)
       (simp add: required_dirs_def crates_def required_examples_def cargo_toml_path_def
          ci_workflow_path_def joinpath_def sample_world_def str_def)
  have absent: "\<not> path_exists (sample_world [str ''egg/Dockerfile''] (Completed 0 []))
                   (joinpath (str ''egg'') (str ''Dockerfile''))"
    by (simp add: sample_world_def joinpath_def str_def)
  have root: "path_exists (sample_world [str ''egg/Dockerfile''] (Completed 0 [])) (str ''egg'')"
    by (simp add: sample_world_def str_def)
  show ?thesis
    using h absent root missing_docker_files_only_warn [OF h]
    by simp blast
qed

text \<open>
  C9. A run with a fresh validator is determined by what it observes: two worlds that
  answer alike for the paths a run asks about, for the two files it reads and for the
  build command give the same result, with the same successes, warnings and errors
  (and the same printed text and boolean, or the same exception). Nothing else enters:
  the lists start empty in \<open>EggValidator_init\<close>. In particular two runs over the same
  unchanged tree give identical lists.
\<close>

theorem same_tree_same_lists:
  assumes "same_observations w1 w2 r"
  shows "run_all_validations w1 (EggValidator_init r) =
         run_all_validations w2 (EggValidator_init r)"
proof -
  have "list_all2 (\<lambda>f g. \<forall>v. egg_root v = r \<longrightarrow> f v = g v) (validations w1) (validations w2)"
    unfolding validations_def
    using same_observations_checks [OF assms]
    by simp
  from run_validations_cong [OF this validations_keep_root]
  have "run_validations (validations w1) out (EggValidator_init r) =
        run_validations (validations w2) out (EggValidator_init r)" for out
    by (simp add: EggValidator_init_def)
  then show ?thesis
    by (simp add: run_all_validations_def)
qed

theorem same_tree_same_lists_witness:
  "same_observations (sample_world [str ''egg/target''] TimeoutExpired)
     (sample_world [] TimeoutExpired) (str ''egg'') \<and>
   path_exists (sample_world [str ''egg/target''] TimeoutExpired) (str ''egg/target'') \<noteq>
     path_exists (sample_world [] TimeoutExpired) (str ''egg/target'') \<and>
   run_all_validations (sample_world [str ''egg/target''] TimeoutExpired)
     (EggValidator_init (str ''egg'')) =
   run_all_validations (sample_world [] TimeoutExpired) (EggValidator_init (str ''egg''))"
proof -
  have h: "same_observations (sample_world [str ''egg/target''] TimeoutExpired)
             (sample_world [] TimeoutExpired) (str ''egg'')"
    by (simp add: same_observations_def observed_paths_def required_dirs_def crates_def
          required_examples_def docs_def cargo_toml_path_def ci_workflow_path_def joinpath_def
          sample_world_def str_def)
  have d: "path_exists (sample_world [str ''egg/target''] TimeoutExpired) (str ''egg/target'') \<noteq>
             path_exists (sample_world [] TimeoutExpired) (str ''egg/target'')"
    by (simp add: sample_world_def)
  show ?thesis
    using h d same_tree_same_lists [OF h] by simp
qed

end
